theory Spec2Isabelle
  imports Complex_Main
begin

section \<open>JavaScript values as the loader sees them\<close>

text \<open>
  The collection document is a parsed JSON value, and the validators take it as \<open>any\<close>.
  A value is one of the JSON shapes, or \<open>undefined\<close> (what reading an absent property
  gives). Numbers are the finite doubles, read as the rationals they denote (NaN and the
  infinities cannot be written in a JSON document other than by overflow and are left out).
  A string is its list of UTF-16 code units, here the code units below 256. An object is
  its list of own properties, one entry per key.
\<close>

datatype jsval =
    JUndefined
  | JNull
  | JBool bool
  | JNum rat
  | JStr string
  | JArr "jsval list"
  | JObj "(string \<times> jsval) list"

text \<open>The \<open>typeof\<close> operator.\<close>

fun typeof :: "jsval \<Rightarrow> string" where
  "typeof JUndefined = ''undefined''"
| "typeof JNull = ''object''"
| "typeof (JBool b) = ''boolean''"
| "typeof (JNum n) = ''number''"
| "typeof (JStr s) = ''string''"
| "typeof (JArr xs) = ''object''"
| "typeof (JObj kvs) = ''object''"

text \<open>Truthiness, as \<open>!v\<close> and \<open>if (v)\<close> read a value.\<close>

fun truthy :: "jsval \<Rightarrow> bool" where
  "truthy JUndefined = False"
| "truthy JNull = False"
| "truthy (JBool b) = b"
| "truthy (JNum n) = (n \<noteq> 0)"
| "truthy (JStr s) = (s \<noteq> [])"
| "truthy (JArr xs) = True"
| "truthy (JObj kvs) = True"

text \<open>
  Reading a property \<open>v.k\<close> or \<open>v[k]\<close> of a non-null object, for the property names of the
  schema (none of them is an array index, \<open>length\<close>, or on a prototype): an object gives
  its own property or \<open>undefined\<close>, an array gives \<open>undefined\<close>.
\<close>

fun get_prop :: "jsval \<Rightarrow> string \<Rightarrow> jsval" where
  "get_prop (JObj kvs) k = (case map_of kvs k of Some v \<Rightarrow> v | None \<Rightarrow> JUndefined)"
| "get_prop v k = JUndefined"

fun hasOwnProperty :: "jsval \<Rightarrow> string \<Rightarrow> bool" where
  "hasOwnProperty (JObj kvs) k = (map_of kvs k \<noteq> None)"
| "hasOwnProperty v k = False"

definition Number_isInteger :: "rat \<Rightarrow> bool" where
  "Number_isInteger x = (of_int \<lfloor>x\<rfloor> = x)"

subsection \<open>Strings\<close>

text \<open>Decimal rendering of an index or a count inside a template literal.\<close>

fun show_nat :: "nat \<Rightarrow> string" where
  "show_nat n =
     (if n < 10 then [''0123456789'' ! n]
      else show_nat (n div 10) @ [''0123456789'' ! (n mod 10)])"

declare show_nat.simps [simp del]

definition show_int :: "int \<Rightarrow> string" where
  "show_int i = (if i < 0 then ''-'' @ show_nat (nat (- i)) else show_nat (nat i))"

text \<open>
  Fractional digits of a number in \<open>[0, 1)\<close>, at most \<open>k\<close> of them. A finite double has
  at most 1074.
\<close>

fun frac_digits :: "nat \<Rightarrow> rat \<Rightarrow> string" where
  "frac_digits 0 r = []"
| "frac_digits (Suc k) r =
     (if r = 0 then []
      else (''0123456789'' ! nat \<lfloor>r * 10\<rfloor>) # frac_digits k (r * 10 - of_int \<lfloor>r * 10\<rfloor>))"

text \<open>
  \<open>Number.prototype.toString\<close> as a template literal applies it: exact for the integers
  below \<open>10^21\<close>; a fraction is printed with its exact decimal expansion, which is what
  JavaScript prints when that expansion has at most 15 significant digits and the number
  is at least \<open>10^-6\<close> in magnitude.
\<close>

definition Number_toString :: "rat \<Rightarrow> string" where
  "Number_toString x =
     (if Number_isInteger x then show_int \<lfloor>x\<rfloor>
      else (if x < 0 then ''-'' else []) @ show_nat (nat \<lfloor>\<bar>x\<bar>\<rfloor>) @ ''.''
           @ frac_digits 1074 (\<bar>x\<bar> - of_int \<lfloor>\<bar>x\<bar>\<rfloor>))"

text \<open>White space that \<open>trim\<close> removes, among the code units below 256.\<close>

definition is_whitespace :: "char \<Rightarrow> bool" where
  "is_whitespace c = ((of_char c :: nat) \<in> {9, 10, 11, 12, 13, 32, 160})"

definition trim :: "string \<Rightarrow> string" where
  "trim s = rev (dropWhile is_whitespace (rev (dropWhile is_whitespace s)))"

definition endsWith :: "string \<Rightarrow> string \<Rightarrow> bool" where
  "endsWith s t = (length t \<le> length s \<and> drop (length s - length t) s = t)"

text \<open>\<open>s.includes(t)\<close>: \<open>t\<close> occurs in \<open>s\<close> as a contiguous run.\<close>

fun str_includes :: "string \<Rightarrow> string \<Rightarrow> bool" where
  "str_includes [] t = (t = [])"
| "str_includes (c # cs) t = (take (length t) (c # cs) = t \<or> str_includes cs t)"

definition lower_char :: "char \<Rightarrow> char" where
  "lower_char c =
     (let n = (of_char c :: nat)
      in if (65 \<le> n \<and> n \<le> 90) \<or> (192 \<le> n \<and> n \<le> 222 \<and> n \<noteq> 215)
         then char_of (n + 32) else c)"

definition toLowerCase :: "string \<Rightarrow> string" where
  "toLowerCase s = map lower_char s"

definition is_digit :: "char \<Rightarrow> bool" where
  "is_digit c = (48 \<le> (of_char c :: nat) \<and> (of_char c :: nat) \<le> 57)"

definition is_lower :: "char \<Rightarrow> bool" where
  "is_lower c = (97 \<le> (of_char c :: nat) \<and> (of_char c :: nat) \<le> 122)"

definition is_upper :: "char \<Rightarrow> bool" where
  "is_upper c = (65 \<le> (of_char c :: nat) \<and> (of_char c :: nat) \<le> 90)"

text \<open>\<open>Array.prototype.join\<close> on strings.\<close>

fun join :: "string \<Rightarrow> string list \<Rightarrow> string" where
  "join sep [] = []"
| "join sep [x] = x"
| "join sep (x # y # ys) = x @ sep @ join sep (y # ys)"

subsection \<open>The regular expressions of the validators\<close>

text \<open>\<open>/^[a-z0-9-]+$/\<close>\<close>

definition id_pattern :: "string \<Rightarrow> bool" where
  "id_pattern s = (s \<noteq> [] \<and> list_all (\<lambda>c. is_lower c \<or> is_digit c \<or> c = CHR ''-'') s)"

text \<open>\<open>/^[A-Z]{2}$/\<close>\<close>

definition countryCode_pattern :: "string \<Rightarrow> bool" where
  "countryCode_pattern s = (length s = 2 \<and> list_all is_upper s)"

text \<open>\<open>/\.csv$/\<close>\<close>

definition csv_pattern :: "string \<Rightarrow> bool" where
  "csv_pattern s = endsWith s ''.csv''"

text \<open>\<open>/^\d{4}-\d{2}-\d{2}$/\<close>\<close>

definition date_pattern :: "string \<Rightarrow> bool" where
  "date_pattern s =
     (length s = 10 \<and> list_all is_digit (take 4 s) \<and> s ! 4 = CHR ''-''
      \<and> list_all is_digit (take 2 (drop 5 s)) \<and> s ! 7 = CHR ''-''
      \<and> list_all is_digit (drop 8 s))"

text \<open>\<open>/^\d+\.\d+\.\d+$/\<close>: three non-empty runs of digits with a dot between them.\<close>

definition version_pattern :: "string \<Rightarrow> bool" where
  "version_pattern s =
     (let a = takeWhile is_digit s; r1 = dropWhile is_digit s;
          b = takeWhile is_digit (drop 1 r1); r2 = dropWhile is_digit (drop 1 r1);
          c = drop 1 r2
      in a \<noteq> [] \<and> take 1 r1 = ''.'' \<and> b \<noteq> [] \<and> take 1 r2 = ''.''
         \<and> c \<noteq> [] \<and> list_all is_digit c)"

section \<open>Schema and validator\<close>

text \<open>
  The definitions of this and the next two sections follow the \<open>DataLoader\<close> class of
  \<open>src/hooks/useDatasets.ts\<close> (lines 386 to 1396); the messages are the source's.
  \<open>ValidationError\<close> and \<open>ValidationResult\<close> are its two interfaces (lines 396 to 410).
\<close>

record ValidationError =
  field :: string
  val :: jsval
  message :: string
  path :: "string option"

record ValidationResult =
  isValid :: bool
  errors :: "ValidationError list"
  warnings :: "ValidationError list"

text \<open>
  One entry of the \<open>fieldValidations\<close> table in \<open>validateDatasetDetailed\<close> (lines 743 to
  779). A regular expression is the predicate it decides.
\<close>

record FieldValidation =
  vfield :: string
  required :: bool
  vtype :: string
  minLength :: "nat option"
  maxLength :: "nat option"
  pattern :: "(string \<Rightarrow> bool) option"
  patternMessage :: "string option"

definition fieldValidations :: "FieldValidation list" where
  "fieldValidations =
     [\<lparr>vfield = ''id'', required = True, vtype = ''string'',
        minLength = None, maxLength = None, pattern = Some id_pattern,
        patternMessage = Some ''ID must contain only lowercase letters, numbers, and hyphens''\<rparr>,
      \<lparr>vfield = ''countryName'', required = True, vtype = ''string'',
        minLength = Some 2, maxLength = Some 100, pattern = None, patternMessage = None\<rparr>,
      \<lparr>vfield = ''countryCode'', required = True, vtype = ''string'',
        minLength = None, maxLength = None, pattern = Some countryCode_pattern,
        patternMessage = Some ''Country code must be exactly 2 uppercase letters''\<rparr>,
      \<lparr>vfield = ''region'', required = True, vtype = ''string'',
        minLength = Some 2, maxLength = Some 50, pattern = None, patternMessage = None\<rparr>,
      \<lparr>vfield = ''sampleFileName'', required = True, vtype = ''string'',
        minLength = None, maxLength = None, pattern = Some csv_pattern,
        patternMessage = Some ''Sample filename must end with .csv''\<rparr>]"

text \<open>
  One iteration of the loop over \<open>fieldValidations\<close> (lines 782 to 848): the errors and
  the warnings it pushes. Each \<open>continue\<close> of the source ends the iteration with what
  was pushed so far. \<open>validation.minLength && ...\<close> and \<open>validation.maxLength && ...\<close>
  are false for an absent bound and for the bound 0.
\<close>

definition validate_field ::
  "jsval \<Rightarrow> string \<Rightarrow> FieldValidation \<Rightarrow> ValidationError list \<times> ValidationError list" where
  \<open>validate_field dataset pth v =
     (let value = get_prop dataset (vfield v);
          fieldPath = pth @ ''.'' @ vfield v
      in if required v \<and> (value = JUndefined \<or> value = JNull) then
           ([\<lparr>field = vfield v, val = value,
              message = ''Required field "'' @ vfield v @ ''" is missing'',
              path = Some fieldPath\<rparr>], [])
         else if value \<noteq> JUndefined \<and> value \<noteq> JNull then
           (if typeof value \<noteq> vtype v then
              ([\<lparr>field = vfield v, val = value,
                 message = ''Field "'' @ vfield v @ ''" must be of type '' @ vtype v,
                 path = Some fieldPath\<rparr>], [])
            else if vtype v = ''string'' then
              (case value of
                 JStr stringValue \<Rightarrow>
                   if trim stringValue = [] then
                     ([\<lparr>field = vfield v, val = value,
                        message = ''Field "'' @ vfield v @ ''" cannot be empty'',
                        path = Some fieldPath\<rparr>], [])
                   else
                     ((case minLength v of
                         Some m \<Rightarrow>
                           if m \<noteq> 0 \<and> length stringValue < m then
                             [\<lparr>field = vfield v, val = value,
                               message = ''Field "'' @ vfield v @ ''" must be at least ''
                                         @ show_nat m @ '' characters'',
                               path = Some fieldPath\<rparr>]
                           else []
                       | None \<Rightarrow> [])
                      @
                      (case pattern v of
                         Some p \<Rightarrow>
                           if \<not> p stringValue then
                             [\<lparr>field = vfield v, val = value,
                               message = (case patternMessage v of
                                            Some pm \<Rightarrow> if pm \<noteq> [] then pm
                                              else ''Field "'' @ vfield v @ ''" does not match required pattern''
                                          | None \<Rightarrow> ''Field "'' @ vfield v @ ''" does not match required pattern''),
                               path = Some fieldPath\<rparr>]
                           else []
                       | None \<Rightarrow> []),
                      (case maxLength v of
                         Some m \<Rightarrow>
                           if m \<noteq> 0 \<and> length stringValue > m then
                             [\<lparr>field = vfield v, val = value,
                               message = ''Field "'' @ vfield v @ ''" is longer than recommended ''
                                         @ show_nat m @ '' characters'',
                               path = Some fieldPath\<rparr>]
                           else []
                       | None \<Rightarrow> []))
               | _ \<Rightarrow> ([], []))
            else ([], []))
         else ([], []))\<close>

text \<open>The \<open>postalCodeCount\<close> block (lines 850 to 887): the errors and the warnings it pushes.\<close>

definition validate_postalCodeCount ::
  "jsval \<Rightarrow> string \<Rightarrow> ValidationError list \<times> ValidationError list" where
  \<open>validate_postalCodeCount dataset pth =
     (let postalCodeCount = get_prop dataset ''postalCodeCount'';
          p = Some (pth @ ''.postalCodeCount'')
      in if postalCodeCount = JUndefined \<or> postalCodeCount = JNull then
           ([\<lparr>field = ''postalCodeCount'', val = postalCodeCount,
              message = ''Required field "postalCodeCount" is missing'', path = p\<rparr>], [])
         else
           (case postalCodeCount of
              JNum n \<Rightarrow>
                if \<not> Number_isInteger n then
                  ([\<lparr>field = ''postalCodeCount'', val = postalCodeCount,
                     message = ''Field "postalCodeCount" must be an integer'', path = p\<rparr>], [])
                else if n \<le> 0 then
                  ([\<lparr>field = ''postalCodeCount'', val = postalCodeCount,
                     message = ''Field "postalCodeCount" must be greater than 0'', path = p\<rparr>], [])
                else if n > 10000000 then
                  ([], [\<lparr>field = ''postalCodeCount'', val = postalCodeCount,
                         message = ''Field "postalCodeCount" seems unusually high (>10M)'',
                         path = p\<rparr>])
                else ([], [])
            | _ \<Rightarrow>
                ([\<lparr>field = ''postalCodeCount'', val = postalCodeCount,
                   message = ''Field "postalCodeCount" must be a number'', path = p\<rparr>], [])))\<close>

definition validStatuses :: "string list" where
  "validStatuses = [''active'', ''inactive'', ''coming-soon'']"

text \<open>The \<open>status\<close> block (lines 889 to 913): the errors it pushes.\<close>

definition validate_status :: "jsval \<Rightarrow> string \<Rightarrow> ValidationError list" where
  \<open>validate_status dataset pth =
     (let status = get_prop dataset ''status'';
          p = Some (pth @ ''.status'')
      in if status = JUndefined \<or> status = JNull then
           [\<lparr>field = ''status'', val = status,
             message = ''Required field "status" is missing'', path = p\<rparr>]
         else
           (case status of
              JStr s \<Rightarrow>
                if s \<notin> set validStatuses then
                  [\<lparr>field = ''status'', val = status,
                    message = ''Field "status" must be one of: '' @ join '', '' validStatuses,
                    path = p\<rparr>]
                else []
            | _ \<Rightarrow>
                [\<lparr>field = ''status'', val = status,
                  message = ''Field "status" must be a string'', path = p\<rparr>]))\<close>

text \<open>
  \<open>DataLoader.validateDatasetDetailed(dataset, path)\<close> (lines 727 to 934): anything but a
  non-null object is rejected at once, with the path as the field of the one error.
\<close>

definition validateDatasetDetailed :: "jsval \<Rightarrow> string \<Rightarrow> ValidationResult" where
  "validateDatasetDetailed dataset pth =
     (if \<not> truthy dataset \<or> typeof dataset \<noteq> ''object'' then
        \<lparr>isValid = False,
         errors = [\<lparr>field = pth, val = dataset,
                    message = ''Dataset must be a non-null object'', path = Some pth\<rparr>],
         warnings = []\<rparr>
      else
        (let fs = map (validate_field dataset pth) fieldValidations;
             pc = validate_postalCodeCount dataset pth;
             es = concat (map fst fs) @ fst pc @ validate_status dataset pth;
             ws = concat (map snd fs) @ snd pc
         in \<lparr>isValid = (es = []), errors = es, warnings = ws\<rparr>))"

text \<open>\<open>DataLoader.validateDataset\<close>, with the default path.\<close>

definition validateDataset :: "jsval \<Rightarrow> bool" where
  "validateDataset dataset = isValid (validateDatasetDetailed dataset ''dataset'')"

text \<open>
  \<open>DataLoader.validateDatasetCollectionDetailed\<close> (lines 603 to 710): the checks on
  \<open>datasets\<close>.
\<close>

definition validate_datasets_property ::
  "jsval \<Rightarrow> ValidationError list \<times> ValidationError list" where
  \<open>validate_datasets_property data =
     (if \<not> hasOwnProperty data ''datasets'' then
        ([\<lparr>field = ''datasets'', val = JUndefined,
           message = ''Missing required property "datasets"'', path = None\<rparr>], [])
      else
        (case get_prop data ''datasets'' of
           JArr ds \<Rightarrow>
             if length ds = 0 then
               ([], [\<lparr>field = ''datasets'', val = JArr ds,
                      message = ''Datasets array is empty'', path = None\<rparr>])
             else ([], [])
         | v \<Rightarrow>
             ([\<lparr>field = ''datasets'', val = v,
                message = ''Property "datasets" must be an array'', path = None\<rparr>], [])))\<close>

text \<open>The checks on the fields of a \<open>metadata\<close> object.\<close>

definition validate_lastUpdated ::
  "jsval \<Rightarrow> ValidationError list \<times> ValidationError list" where
  "validate_lastUpdated metadata =
     (case get_prop metadata ''lastUpdated'' of
        JStr s \<Rightarrow>
          if \<not> date_pattern s then
            ([], [\<lparr>field = ''metadata.lastUpdated'', val = JStr s,
                   message = ''lastUpdated should be in YYYY-MM-DD format'', path = None\<rparr>])
          else ([], [])
      | v \<Rightarrow>
          ([\<lparr>field = ''metadata.lastUpdated'', val = v,
             message = ''lastUpdated must be a string'', path = None\<rparr>], []))"

definition validate_version ::
  "jsval \<Rightarrow> ValidationError list \<times> ValidationError list" where
  "validate_version metadata =
     (case get_prop metadata ''version'' of
        JStr s \<Rightarrow>
          if \<not> version_pattern s then
            ([], [\<lparr>field = ''metadata.version'', val = JStr s,
                   message = ''version should follow semantic versioning (x.y.z)'',
                   path = None\<rparr>])
          else ([], [])
      | v \<Rightarrow>
          ([\<lparr>field = ''metadata.version'', val = v,
             message = ''version must be a string'', path = None\<rparr>], []))"

definition validate_totalCountries ::
  "jsval \<Rightarrow> jsval \<Rightarrow> ValidationError list \<times> ValidationError list" where
  "validate_totalCountries data metadata =
     (case get_prop metadata ''totalCountries'' of
        JNum n \<Rightarrow>
          if n < 0 then
            ([\<lparr>field = ''metadata.totalCountries'', val = JNum n,
               message = ''totalCountries must be non-negative'', path = None\<rparr>], [])
          else
            (case get_prop data ''datasets'' of
               JArr ds \<Rightarrow>
                 if n \<noteq> of_nat (length ds) then
                   ([], [\<lparr>field = ''metadata.totalCountries'', val = JNum n,
                          message = ''totalCountries ('' @ Number_toString n
                            @ '') does not match actual datasets length (''
                            @ show_nat (length ds) @ '')'',
                          path = None\<rparr>])
                 else ([], [])
             | _ \<Rightarrow> ([], []))
      | v \<Rightarrow>
          ([\<lparr>field = ''metadata.totalCountries'', val = v,
             message = ''totalCountries must be a number'', path = None\<rparr>], []))"

definition validate_metadata_property ::
  "jsval \<Rightarrow> ValidationError list \<times> ValidationError list" where
  \<open>validate_metadata_property data =
     (if \<not> hasOwnProperty data ''metadata'' then
        ([\<lparr>field = ''metadata'', val = JUndefined,
           message = ''Missing required property "metadata"'', path = None\<rparr>], [])
      else
        (let metadata = get_prop data ''metadata''
         in if \<not> truthy metadata \<or> typeof metadata \<noteq> ''object'' then
              ([\<lparr>field = ''metadata'', val = metadata,
                 message = ''Metadata must be an object'', path = None\<rparr>], [])
            else
              (let lu = validate_lastUpdated metadata;
                   ve = validate_version metadata;
                   tc = validate_totalCountries data metadata
               in (fst lu @ fst ve @ fst tc, snd lu @ snd ve @ snd tc))))\<close>

subsection \<open>Thrown values\<close>

datatype DataLoaderErrorCode =
    NETWORK_ERROR
  | PARSE_ERROR
  | VALIDATION_ERROR
  | FILE_NOT_FOUND
  | PERMISSION_ERROR
  | TIMEOUT_ERROR
  | UNKNOWN_ERROR

text \<open>
  \<open>DataLoaderError\<close>: \<open>emessage\<close> is the \<open>message\<close> of the error, \<open>cause\<close> the message of
  the error given as its cause. The constructor's \<open>recoverable\<close> defaults to true.
\<close>

record DataLoaderError =
  emessage :: string
  cause :: "string option"
  code :: "DataLoaderErrorCode option"
  recoverable :: bool

text \<open>
  What a \<open>throw\<close> or a rejected promise carries: a \<open>DataLoaderError\<close>, another \<open>Error\<close>
  (with its message), or a value that is no \<open>Error\<close> (with what \<open>String\<close> makes of it).
\<close>

datatype thrown =
    Thrown_DataLoaderError DataLoaderError
  | Thrown_Error string
  | Thrown_value string

fun ERROR_MESSAGES :: "DataLoaderErrorCode \<Rightarrow> string" where
  "ERROR_MESSAGES NETWORK_ERROR =
     ''Unable to connect to the server. Please check your internet connection and try again.''"
| "ERROR_MESSAGES PARSE_ERROR =
     ''The data format is invalid. Please contact support if this problem persists.''"
| "ERROR_MESSAGES VALIDATION_ERROR =
     ''Some data entries are invalid and have been filtered out.''"
| "ERROR_MESSAGES FILE_NOT_FOUND = ''The requested file could not be found.''"
| "ERROR_MESSAGES PERMISSION_ERROR =
     ''You do not have permission to access this resource.''"
| "ERROR_MESSAGES TIMEOUT_ERROR = ''The request timed out. Please try again.''"
| "ERROR_MESSAGES UNKNOWN_ERROR =
     ''An unexpected error occurred. Please try again or contact support.''"

text \<open>
  \<open>DataLoader.validateDatasetCollectionDetailed\<close>. The call \<open>data.hasOwnProperty(...)\<close>
  reads the method from the object: a document with an own property of that name puts a
  JSON value in its place, and the call throws a \<open>TypeError\<close> (the message is the one of
  V8).
\<close>

definition validateDatasetCollectionDetailed :: "jsval \<Rightarrow> thrown + ValidationResult" where
  "validateDatasetCollectionDetailed data =
     (if \<not> truthy data \<or> typeof data \<noteq> ''object'' then
        Inr \<lparr>isValid = False,
             errors = [\<lparr>field = ''root'', val = data,
                        message = ''Data must be a non-null object'', path = None\<rparr>],
             warnings = []\<rparr>
      else if hasOwnProperty data ''hasOwnProperty'' then
        Inl (Thrown_Error ''data.hasOwnProperty is not a function'')
      else
        (let d = validate_datasets_property data;
             m = validate_metadata_property data;
             es = fst d @ fst m;
             ws = snd d @ snd m
         in Inr \<lparr>isValid = (es = []), errors = es, warnings = ws\<rparr>))"

section \<open>Dataset loader\<close>

text \<open>An entry of the \<open>invalid\<close> list of \<open>filterValidDatasets\<close>.\<close>

record InvalidDataset =
  dataset :: jsval
  dataset_errors :: "ValidationError list"

record FilterResult =
  valid :: "jsval list"
  invalid :: "InvalidDataset list"
  totalProcessed :: nat

text \<open>
  The \<open>for\<close> loop of \<open>filterValidDatasets\<close> (lines 1211 to 1235) from index \<open>i\<close> on, over
  the records that are left, with the two arrays it pushes to.
\<close>

fun filterValidDatasets_loop ::
  "nat \<Rightarrow> jsval list \<Rightarrow> jsval list \<Rightarrow> InvalidDataset list \<Rightarrow> jsval list \<times> InvalidDataset list" where
  "filterValidDatasets_loop i [] vs ivs = (vs, ivs)"
| "filterValidDatasets_loop i (d # ds) vs ivs =
     (let validation = validateDatasetDetailed d (''dataset['' @ show_nat i @ '']'')
      in if isValid validation then filterValidDatasets_loop (Suc i) ds (vs @ [d]) ivs
         else filterValidDatasets_loop (Suc i) ds vs
                (ivs @ [\<lparr>dataset = d, dataset_errors = errors validation\<rparr>]))"

definition filterValidDatasets :: "jsval list \<Rightarrow> FilterResult" where
  "filterValidDatasets datasets =
     (let r = filterValidDatasets_loop 0 datasets [] []
      in \<lparr>valid = fst r, invalid = snd r, totalProcessed = length datasets\<rparr>)"

text \<open>\<open>DataLoader.getFallbackDatasets\<close> (lines 1241 to 1255).\<close>

definition getFallbackDatasets :: "jsval list" where
  "getFallbackDatasets =
     [JObj [(''id'', JStr ''us''),
            (''countryName'', JStr ''United States''),
            (''countryCode'', JStr ''US''),
            (''postalCodeCount'', JNum 41692),
            (''region'', JStr ''North America''),
            (''status'', JStr ''active''),
            (''sampleFileName'', JStr ''us-postal-codes-sample.csv'')]]"

text \<open>
  The \<open>catch\<close> block of \<open>loadDatasets\<close> (lines 558 to 595): a \<open>DataLoaderError\<close> is thrown
  again as it is; anything else is classified by the words in its message.
\<close>

definition loadDatasets_catch :: "thrown \<Rightarrow> DataLoaderError" where
  "loadDatasets_catch e =
     (case e of
        Thrown_DataLoaderError d \<Rightarrow> d
      | Thrown_Error msg \<Rightarrow>
          (let errorMessage = toLowerCase msg;
               (errorCode, rec) =
                 (if str_includes errorMessage ''timeout''
                     \<or> str_includes errorMessage ''import timeout'' then (TIMEOUT_ERROR, True)
                  else if str_includes errorMessage ''network''
                     \<or> str_includes errorMessage ''fetch'' then (NETWORK_ERROR, True)
                  else if str_includes errorMessage ''parse''
                     \<or> str_includes errorMessage ''json'' then (PARSE_ERROR, False)
                  else if str_includes errorMessage ''not found''
                     \<or> str_includes errorMessage ''404'' then (FILE_NOT_FOUND, False)
                  else if str_includes errorMessage ''permission''
                     \<or> str_includes errorMessage ''403'' then (PERMISSION_ERROR, False)
                  else (UNKNOWN_ERROR, True))
           in \<lparr>emessage = ERROR_MESSAGES errorCode, cause = Some msg,
               code = Some errorCode, recoverable = rec\<rparr>)
      | Thrown_value str \<Rightarrow>
          \<lparr>emessage = ERROR_MESSAGES UNKNOWN_ERROR, cause = Some str,
           code = Some UNKNOWN_ERROR, recoverable = True\<rparr>)"

text \<open>
  \<open>DataLoader.loadDatasets\<close> (lines 490 to 596). Its one input is how the race between the import of the
  document and the 10 second timer ends: \<open>None\<close> when the timer fires first, otherwise
  the rejection of the import or the \<open>default\<close> export of the module. Logging is left out.
  The last branch stands for \<open>filterValidDatasets\<close> reading the length of something that
  is no array; it is never taken, since a valid envelope has an array there.
\<close>

definition loadDatasets :: "(thrown + jsval) option \<Rightarrow> DataLoaderError + jsval list" where
  "loadDatasets imported =
     (case imported of
        None \<Rightarrow> Inl (loadDatasets_catch (Thrown_Error ''Import timeout''))
      | Some (Inl e) \<Rightarrow> Inl (loadDatasets_catch e)
      | Some (Inr data) \<Rightarrow>
          (case validateDatasetCollectionDetailed data of
             Inl e \<Rightarrow> Inl (loadDatasets_catch e)
           | Inr collectionValidation \<Rightarrow>
               if \<not> isValid collectionValidation then
                 Inl (loadDatasets_catch (Thrown_DataLoaderError
                   \<lparr>emessage = ERROR_MESSAGES VALIDATION_ERROR,
                    cause = Some (join '', ''
                      (map (\<lambda>e. field e @ '': '' @ message e) (errors collectionValidation))),
                    code = Some VALIDATION_ERROR, recoverable = False\<rparr>))
               else
                 (case get_prop data ''datasets'' of
                    JArr ds \<Rightarrow>
                      (let filterResult = filterValidDatasets ds
                       in if length (valid filterResult) = 0 then
                            Inl (loadDatasets_catch (Thrown_DataLoaderError
                              \<lparr>emessage = ''No valid datasets found. Using fallback data.'',
                               cause = Some ''All datasets failed validation'',
                               code = Some VALIDATION_ERROR, recoverable = True\<rparr>))
                          else Inr (valid filterResult))
                  | _ \<Rightarrow>
                      Inl (loadDatasets_catch (Thrown_Error
                        ''Cannot read properties of undefined (reading 'length')'')))))"

text \<open>
  \<open>String(v)\<close>, as a template literal renders a value. An array joins its elements with
  commas, \<open>null\<close> and \<open>undefined\<close> elements as empty strings.
\<close>

fun String_of :: "jsval \<Rightarrow> string" where
  "String_of JUndefined = ''undefined''"
| "String_of JNull = ''null''"
| "String_of (JBool b) = (if b then ''true'' else ''false'')"
| "String_of (JNum n) = Number_toString n"
| "String_of (JStr s) = s"
| "String_of (JArr xs) =
     join '','' (map (\<lambda>x. if x = JUndefined \<or> x = JNull then [] else String_of x) xs)"
| "String_of (JObj kvs) = ''[object Object]''"





subsection \<open>Recovery\<close>

text \<open>
  What \<open>attemptRecovery\<close> finds under the key \<open>datasets_emergency_cache\<close>: nothing
  (\<open>getItem\<close> gives \<open>null\<close> or the empty string), something that makes the access or
  \<open>JSON.parse\<close> throw, or the array that \<open>saveEmergencyCache\<close> stored. A stored text that
  parses to something else than an array is not modelled.
\<close>

datatype emergency_cache =
    Cache_empty
  | Cache_throws
  | Cache_array "jsval list"

text \<open>
  \<open>DataLoader.attemptRecovery\<close> (lines 1262 to 1305): fallback data, then the emergency
  cache, then failure. Nothing inside the first \<open>try\<close> throws.
\<close>

definition attemptRecovery :: "DataLoaderError \<Rightarrow> emergency_cache \<Rightarrow> DataLoaderError + jsval list" where
  "attemptRecovery originalError cachedData =
     (let failure = \<lparr>emessage = ''Unable to recover data. Please refresh the page or contact support.'',
                     cause = Some (emessage originalError),
                     code = Some UNKNOWN_ERROR, recoverable = False\<rparr>;
          strategy2 =
            (case cachedData of
               Cache_array parsedData \<Rightarrow>
                 (let validation = filterValidDatasets parsedData
                  in if length (valid validation) > 0 then Inr (valid validation)
                     else Inl failure)
             | _ \<Rightarrow> Inl failure)
      in if recoverable originalError then
           (let validation = filterValidDatasets getFallbackDatasets
            in if length (valid validation) > 0 then Inr (valid validation) else strategy2)
         else strategy2)"

section \<open>Asset resolver\<close>

text \<open>\<open>DataLoader.getAssetPath\<close> (lines 950 to 961) and \<open>checkFileExists\<close> (lines 968 to 993).\<close>

definition ASSETS_BASE_PATH :: string where
  "ASSETS_BASE_PATH = ''public/assets/samples''"

definition getAssetPath :: "string \<Rightarrow> DataLoaderError + string" where
  "getAssetPath filename =
     (if filename = [] then
        Inl \<lparr>emessage = ''Filename is required for asset path generation'',
             cause = None, code = None, recoverable = True\<rparr>
      else if \<not> endsWith filename ''.csv'' then
        Inl \<lparr>emessage = ''Asset filename must end with .csv'',
             cause = None, code = None, recoverable = True\<rparr>
      else Inr (ASSETS_BASE_PATH @ ''/'' @ filename))"

text \<open>A \<open>Response\<close>, as far as the probe reads it: \<open>ok\<close> is true for the statuses 200 to 299.\<close>

record Response =
  status :: nat

definition ok :: "Response \<Rightarrow> bool" where
  "ok r = (200 \<le> status r \<and> status r \<le> 299)"

text \<open>
  How the race between \<open>fetch(path, {method: 'HEAD'})\<close> and the 5000 ms timer ends, for
  each path: \<open>None\<close> when the timer fires first (it rejects with
  \<open>Error('File check timeout')\<close>), otherwise the rejection of the fetch or its response.
\<close>

type_synonym head_probe = "string \<Rightarrow> (thrown + Response) option"

text \<open>The body of the \<open>try\<close> block of \<open>checkFileExists\<close>.\<close>

definition checkFileExists_try :: "head_probe \<Rightarrow> jsval \<Rightarrow> thrown + bool" where
  "checkFileExists_try probe filename =
     (if \<not> truthy filename \<or> typeof filename \<noteq> ''string'' then Inr False
      else
        (case getAssetPath (String_of filename) of
           Inl e \<Rightarrow> Inl (Thrown_DataLoaderError e)
         | Inr assetPath \<Rightarrow>
             (case probe assetPath of
                None \<Rightarrow> Inl (Thrown_Error ''File check timeout'')
              | Some (Inl e) \<Rightarrow> Inl e
              | Some (Inr response) \<Rightarrow> Inr (ok response))))"

text \<open>\<open>DataLoader.checkFileExists\<close>: the \<open>catch\<close> block turns every throw into \<open>false\<close>.\<close>

definition checkFileExists :: "head_probe \<Rightarrow> jsval \<Rightarrow> thrown + bool" where
  "checkFileExists probe filename =
     (case checkFileExists_try probe filename of
        Inl e \<Rightarrow> Inr False
      | Inr exists \<Rightarrow> Inr exists)"

section \<open>Cache and retry controller: the \<open>useDatasets\<close> hook\<close>

text \<open>
  \<open>useDatasets\<close> (lines 43 to 217 of \<open>src/hooks/useDatasets.ts\<close>). The options of the hook
  are JavaScript numbers, read as rationals. An attempt number is an integer (it starts at
  1 and grows by 1), and so is a reading of \<open>Date.now()\<close>.
\<close>

record UseDatasetOptions =
  autoLoad :: bool
  cacheDuration :: rat
  maxRetries :: rat
  retryDelay :: rat
  exponentialBackoff :: bool

definition default_options :: UseDatasetOptions where
  "default_options =
     \<lparr>autoLoad = True, cacheDuration = 5 * 60 * 1000, maxRetries = 3,
      retryDelay = 1000, exponentialBackoff = True\<rparr>"

record CacheEntry =
  entry_data :: "jsval list"
  timestamp :: int

text \<open>A call of \<open>setTimeout\<close> by \<open>loadData\<close>: its delay and the attempt its callback makes.\<close>

record retry_timer =
  delay :: rat
  next_attempt :: int

text \<open>
  The state the hook reads and writes: its four \<open>useState\<close> cells, the mounted flag, the
  calls of \<open>setTimeout\<close> made so far (oldest first; \<open>retryTimeoutRef.current\<close> is the last
  of them), and the one slot of the module's \<open>dataCache\<close>.
\<close>

record hook_state =
  data :: "jsval list option"
  loading :: bool
  error :: "string option"
  retryCount :: rat
  isMounted :: bool
  timers :: "retry_timer list"
  dataCache :: "CacheEntry option"

definition isCacheValid :: "UseDatasetOptions \<Rightarrow> int \<Rightarrow> hook_state \<Rightarrow> bool" where
  "isCacheValid opts now s =
     (case dataCache s of
        None \<Rightarrow> False
      | Some cached \<Rightarrow> of_int (now - timestamp cached) < cacheDuration opts)"

text \<open>\<open>cached?.data || null\<close>: an array is truthy, also when it is empty.\<close>

definition getCachedData :: "UseDatasetOptions \<Rightarrow> int \<Rightarrow> hook_state \<Rightarrow> jsval list option" where
  "getCachedData opts now s =
     (if isCacheValid opts now s then
        (case dataCache s of Some cached \<Rightarrow> Some (entry_data cached) | None \<Rightarrow> None)
      else None)"

definition setCachedData :: "int \<Rightarrow> jsval list \<Rightarrow> hook_state \<Rightarrow> hook_state" where
  "setCachedData now datasets s = s\<lparr>dataCache := Some \<lparr>entry_data = datasets, timestamp = now\<rparr>\<rparr>"

text \<open>\<open>retryDelay * Math.pow(2, attempt - 1)\<close>, or the flat \<open>retryDelay\<close>.\<close>

definition calculateRetryDelay :: "UseDatasetOptions \<Rightarrow> int \<Rightarrow> rat" where
  "calculateRetryDelay opts attempt =
     (if \<not> exponentialBackoff opts then retryDelay opts
      else retryDelay opts * power_int 2 (attempt - 1))"

text \<open>
  \<open>loadData(attempt)\<close> runs in two steps, around its one \<open>await\<close>. The first step ends
  either with \<open>loadData\<close> returned, or with \<open>DataLoader.loadDatasets()\<close> called and
  \<open>loadData\<close> waiting for it.
\<close>

datatype load_step =
    Returned hook_state
  | Awaiting hook_state

definition loadData_start :: "UseDatasetOptions \<Rightarrow> int \<Rightarrow> int \<Rightarrow> hook_state \<Rightarrow> load_step" where
  "loadData_start opts now attempt s =
     (if \<not> isMounted s then Returned s
      else
        (case getCachedData opts now s of
           Some cachedData \<Rightarrow>
             if attempt = 1 then
               Returned (s\<lparr>data := Some cachedData, loading := False, error := None,
                           retryCount := 0\<rparr>)
             else Awaiting (s\<lparr>loading := True, retryCount := of_int (attempt - 1)\<rparr>)
         | None \<Rightarrow> Awaiting (s\<lparr>loading := True, retryCount := of_int (attempt - 1)\<rparr>)))"

text \<open>The \<open>finally\<close> block.\<close>

definition loadData_finally :: "hook_state \<Rightarrow> hook_state" where
  "loadData_finally s = (if isMounted s then s\<lparr>loading := False\<rparr> else s)"

text \<open>\<open>err instanceof Error ? err.message : 'Failed to load datasets'\<close>\<close>

fun errorMessage_of :: "thrown \<Rightarrow> string" where
  "errorMessage_of (Thrown_DataLoaderError e) = emessage e"
| "errorMessage_of (Thrown_Error m) = m"
| "errorMessage_of (Thrown_value v) = ''Failed to load datasets''"

text \<open>
  The second step: \<open>loadData(attempt)\<close> resumes at time \<open>now\<close> with what the loader
  returned or threw, in the state as it is then.
\<close>

definition loadData_resume ::
  "UseDatasetOptions \<Rightarrow> int \<Rightarrow> int \<Rightarrow> thrown + jsval list \<Rightarrow> hook_state \<Rightarrow> hook_state" where
  "loadData_resume opts now attempt outcome s =
     (case outcome of
        Inr datasets \<Rightarrow>
          if \<not> isMounted s then loadData_finally s
          else loadData_finally
                 (setCachedData now datasets (s\<lparr>data := Some datasets, error := None, retryCount := 0\<rparr>))
      | Inl err \<Rightarrow>
          if \<not> isMounted s then loadData_finally s
          else
            (let errorMessage = errorMessage_of err
             in if of_int attempt < maxRetries opts then
                  (let d = calculateRetryDelay opts attempt
                   in loadData_finally
                        (s\<lparr>timers := timers s @ [\<lparr>delay = d, next_attempt = attempt + 1\<rparr>],
                           error := Some (errorMessage @ '' (retrying in ''
                                          @ show_int \<lceil>d / 1000\<rceil> @ ''s...)'')\<rparr>))
                else
                  loadData_finally
                    (s\<lparr>data := None, error := Some errorMessage,
                       retryCount := maxRetries opts\<rparr>)))"

text \<open>The callback of a retry timer, when it fires.\<close>

definition retry_timer_fires :: "UseDatasetOptions \<Rightarrow> int \<Rightarrow> retry_timer \<Rightarrow> hook_state \<Rightarrow> load_step" where
  "retry_timer_fires opts now t s =
     (if isMounted s then loadData_start opts now (next_attempt t) s else Returned s)"

text \<open>The state of a hook that has just been mounted, given what the cache holds.\<close>

definition initial_state :: "CacheEntry option \<Rightarrow> hook_state" where
  "initial_state c =
     \<lparr>data = None, loading = False, error = None, retryCount = 0, isMounted = True,
      timers = [], dataCache = c\<rparr>"

section \<open>The rules of the schema, and data for the examples\<close>

definition schema_fields :: "string list" where
  "schema_fields =
     [''id'', ''countryName'', ''countryCode'', ''postalCodeCount'', ''region'', ''status'',
      ''sampleFileName'']"

text \<open>
  The rules a record has to satisfy, stated on their own: it is a non-null object; \<open>id\<close>,
  \<open>countryName\<close>, \<open>countryCode\<close>, \<open>region\<close> and \<open>sampleFileName\<close> are strings that are not
  blank, the identifier made of lowercase letters, digits and hyphens, the two names of at
  least two characters, the code of exactly two uppercase letters, the file name ending in
  \<open>.csv\<close>; \<open>postalCodeCount\<close> is a positive integer; \<open>status\<close> is one of the three
  statuses. The upper bounds on lengths and on the count are guidelines, not rules.
\<close>

definition string_field_ok :: "jsval \<Rightarrow> (string \<Rightarrow> bool) \<Rightarrow> bool" where
  "string_field_ok v P = (case v of JStr s \<Rightarrow> trim s \<noteq> [] \<and> P s | _ \<Rightarrow> False)"

definition satisfies_all_rules :: "jsval \<Rightarrow> bool" where
  "satisfies_all_rules d =
     (truthy d \<and> typeof d = ''object''
      \<and> string_field_ok (get_prop d ''id'') id_pattern
      \<and> string_field_ok (get_prop d ''countryName'') (\<lambda>s. 2 \<le> length s)
      \<and> string_field_ok (get_prop d ''countryCode'') countryCode_pattern
      \<and> string_field_ok (get_prop d ''region'') (\<lambda>s. 2 \<le> length s)
      \<and> string_field_ok (get_prop d ''sampleFileName'') csv_pattern
      \<and> (case get_prop d ''postalCodeCount'' of
            JNum n \<Rightarrow> Number_isInteger n \<and> 0 < n | _ \<Rightarrow> False)
      \<and> (case get_prop d ''status'' of
            JStr s \<Rightarrow> s \<in> set validStatuses | _ \<Rightarrow> False))"

text \<open>
  The entry that \<open>filterValidDatasets\<close> pushes to \<open>invalid\<close> for the record \<open>snd x\<close> at
  index \<open>fst x\<close>.
\<close>

definition invalid_entry :: "nat \<times> jsval \<Rightarrow> InvalidDataset" where
  "invalid_entry x =
     \<lparr>dataset = snd x,
      dataset_errors =
        errors (validateDatasetDetailed (snd x) (''dataset['' @ show_nat (fst x) @ '']''))\<rparr>"

text \<open>A record for France with the given identifier, country code, count and status.\<close>

definition sample_record :: "string \<Rightarrow> string \<Rightarrow> jsval \<Rightarrow> string \<Rightarrow> jsval" where
  "sample_record i cc n st =
     JObj [(''id'', JStr i),
           (''countryName'', JStr ''France''),
           (''countryCode'', JStr cc),
           (''postalCodeCount'', n),
           (''region'', JStr ''Europe''),
           (''status'', JStr st),
           (''sampleFileName'', JStr ''fr-postal-codes-sample.csv'')]"

definition record_fr :: jsval where
  "record_fr = sample_record ''fr'' ''FR'' (JNum 36684) ''active''"


definition record_bogus_status :: jsval where
  "record_bogus_status = sample_record ''fr'' ''FR'' (JNum 36684) ''bogus''"

definition record_count_zero :: jsval where
  "record_count_zero = sample_record ''fr'' ''FR'' (JNum 0) ''active''"

definition record_count_one :: jsval where
  "record_count_one = sample_record ''fr'' ''FR'' (JNum 1) ''active''"

definition record_count_huge :: jsval where
  "record_count_huge = sample_record ''fr'' ''FR'' (JNum 10000001) ''active''"

text \<open>A collection document with a well-formed envelope around the given records.\<close>

definition sample_collection :: "jsval list \<Rightarrow> jsval" where
  "sample_collection ds =
     JObj [(''datasets'', JArr ds),
           (''metadata'',
            JObj [(''lastUpdated'', JStr ''2025-01-09''),
                  (''version'', JStr ''1.0.0''),
                  (''totalCountries'', JNum (of_nat (length ds)))])]"

definition no_findings :: ValidationResult where
  "no_findings = \<lparr>isValid = True, errors = [], warnings = []\<rparr>"

text \<open>What the loader throws when the import fails with a JSON syntax error.\<close>

definition parse_failure :: DataLoaderError where
  "parse_failure =
     \<lparr>emessage = ERROR_MESSAGES PARSE_ERROR, cause = Some ''Unexpected token in JSON'',
      code = Some PARSE_ERROR, recoverable = False\<rparr>"

text \<open>What the loader throws when the import outlasts the timer.\<close>

definition timeout_failure :: DataLoaderError where
  "timeout_failure =
     \<lparr>emessage = ERROR_MESSAGES TIMEOUT_ERROR, cause = Some ''Import timeout'',
      code = Some TIMEOUT_ERROR, recoverable = True\<rparr>"

text \<open>A mounted hook that shows data from an earlier load and waits for the loader.\<close>

definition loaded_state :: hook_state where
  "loaded_state = (initial_state None)\<lparr>data := Some getFallbackDatasets, loading := True\<rparr>"

text \<open>That hook after attempt 1 has ended with the parse error, under the default options.\<close>

definition after_parse_failure :: hook_state where
  "after_parse_failure =
     loadData_resume default_options 0 1 (Inl (Thrown_DataLoaderError parse_failure)) loaded_state"

text \<open>A mounted hook, with a cache entry written at time 0.\<close>

definition cached_entry :: CacheEntry where
  "cached_entry = \<lparr>entry_data = getFallbackDatasets, timestamp = 0\<rparr>"

definition cached_state :: hook_state where
  "cached_state = initial_state (Some cached_entry)"

text \<open>Probes that answer every path alike: with a status, or not before the timer.\<close>

definition probe_status :: "nat \<Rightarrow> head_probe" where
  "probe_status n = (\<lambda>p. Some (Inr \<lparr>status = n\<rparr>))"

definition probe_timeout :: head_probe where
  "probe_timeout = (\<lambda>p. None)"

definition probe_network_failure :: head_probe where
  "probe_network_failure = (\<lambda>p. Some (Inl (Thrown_Error ''Failed to fetch'')))"

section \<open>Properties\<close>

subsection \<open>Retry delay\<close>



subsection \<open>Failures of the loader\<close>

text \<open>
  C1 as stated does not hold: a failure whose \<open>recoverable\<close> flag is false would schedule
  no retry, clear the data and surface the error at once. With the default options, a
  mounted hook that shows earlier data and gets the loader's parse error (not recoverable)
  on attempt 1 keeps its data, schedules a retry after 1000 ms and announces it in the
  error message; when that timer fires, the loader is called again.
\<close>

theorem nonrecoverable_failure_is_retried:
  "loadDatasets (Some (Inl (Thrown_Error ''Unexpected token in JSON''))) = Inl parse_failure
   \<and> recoverable parse_failure = False
   \<and> isMounted loaded_state
   \<and> data loaded_state = Some getFallbackDatasets
   \<and> timers loaded_state = []
   \<and> timers after_parse_failure = [\<lparr>delay = 1000, next_attempt = 2\<rparr>]
   \<and> data after_parse_failure = Some getFallbackDatasets
   \<and> error after_parse_failure
       = Some ''The data format is invalid. Please contact support if this problem persists. (retrying in 1s...)''
   \<and> retryCount after_parse_failure = 0
   \<and> retry_timer_fires default_options 1000 \<lparr>delay = 1000, next_attempt = 2\<rparr> after_parse_failure
       = Awaiting (after_parse_failure\<lparr>loading := True, retryCount := 1\<rparr>)"
  by code_simp

text \<open>
  C1, amended. In a mounted hook, a failure of the loader is handled by the attempt number
  alone, whatever its \<open>recoverable\<close> flag says: once the attempt number has reached
  \<open>maxRetries\<close> the controller fails (no timer is set, the data is cleared, the error
  message is surfaced as it is, the retry count is \<open>maxRetries\<close>); on an earlier attempt
  one retry timer is set with the computed delay for the next attempt, the data and the
  retry count stay, and the error message announces the retry.
\<close>

theorem failure_handling:
  "isMounted s \<Longrightarrow>
     (let s' = loadData_resume opts now attempt (Inl (Thrown_DataLoaderError e)) s
      in (\<not> of_int attempt < maxRetries opts \<longrightarrow>
            timers s' = timers s \<and> data s' = None \<and> error s' = Some (emessage e)
            \<and> retryCount s' = maxRetries opts \<and> loading s' = False)
         \<and> (of_int attempt < maxRetries opts \<longrightarrow>
            timers s' = timers s @ [\<lparr>delay = calculateRetryDelay opts attempt,
                                      next_attempt = attempt + 1\<rparr>]
            \<and> data s' = data s \<and> retryCount s' = retryCount s \<and> loading s' = False
            \<and> error s' = Some (emessage e @ '' (retrying in ''
                  @ show_int \<lceil>calculateRetryDelay opts attempt / 1000\<rceil> @ ''s...)''))
         \<and> loadData_resume opts now attempt
              (Inl (Thrown_DataLoaderError (e\<lparr>recoverable := b\<rparr>))) s = s')"
  by (simp add: loadData_resume_def loadData_finally_def Let_def)

text \<open>The parse error with the default options, on the last attempt and on the first.\<close>

theorem failure_handling_witness:
  "isMounted loaded_state
   \<and> \<not> of_int 3 < maxRetries default_options
   \<and> timers (loadData_resume default_options 0 3
        (Inl (Thrown_DataLoaderError parse_failure)) loaded_state) = timers loaded_state
   \<and> data (loadData_resume default_options 0 3
        (Inl (Thrown_DataLoaderError parse_failure)) loaded_state) = None
   \<and> error (loadData_resume default_options 0 3
        (Inl (Thrown_DataLoaderError parse_failure)) loaded_state) = Some (emessage parse_failure)
   \<and> retryCount (loadData_resume default_options 0 3
        (Inl (Thrown_DataLoaderError parse_failure)) loaded_state) = 3
   \<and> of_int 1 < maxRetries default_options
   \<and> timers (loadData_resume default_options 0 1
        (Inl (Thrown_DataLoaderError parse_failure)) loaded_state)
       = timers loaded_state @ [\<lparr>delay = 1000, next_attempt = 2\<rparr>]
   \<and> data (loadData_resume default_options 0 1
        (Inl (Thrown_DataLoaderError parse_failure)) loaded_state) = data loaded_state"
proof -
  have m: "isMounted loaded_state"
    by (simp add: loaded_state_def initial_state_def)
  have o: "maxRetries default_options = 3" "calculateRetryDelay default_options 1 = 1000"
    by (simp_all add: default_options_def calculateRetryDelay_def)
  show ?thesis
    using failure_handling [OF m, of default_options 0 3 parse_failure False]
      failure_handling [OF m, of default_options 0 1 parse_failure False] m o
    by (simp add: Let_def)
qed

subsection \<open>Cache\<close>

text \<open>
  C3. In a mounted hook whose cache holds an entry (a successful load writes one, with the
  data and the time of the write), \<open>loadData()\<close> at a time \<open>now\<close> with
  \<open>now - timestamp < cacheDuration\<close> returns without calling the loader, with the cached
  data as data, no error, retry count 0 and loading off; when the entry has expired it
  calls the loader.
\<close>

theorem cache_hit_and_expiry:
  "isMounted s \<Longrightarrow> dataCache s = Some c \<Longrightarrow>
     (of_int (now - timestamp c) < cacheDuration opts \<longrightarrow>
        loadData_start opts now 1 s
          = Returned (s\<lparr>data := Some (entry_data c), loading := False, error := None,
                        retryCount := 0\<rparr>))
   \<and> (\<not> of_int (now - timestamp c) < cacheDuration opts \<longrightarrow>
        loadData_start opts now 1 s = Awaiting (s\<lparr>loading := True, retryCount := 0\<rparr>))
   \<and> (isMounted s0 \<longrightarrow>
        dataCache (loadData_resume opts t0 a (Inr ds) s0)
          = Some \<lparr>entry_data = ds, timestamp = t0\<rparr>)"
  by (simp add: loadData_start_def getCachedData_def isCacheValid_def loadData_resume_def
      loadData_finally_def setCachedData_def)

text \<open>
  An entry written at time 0 with the default five minutes: a load one second later is
  served from the cache, a load at five minutes calls the loader.
\<close>

theorem cache_hit_and_expiry_witness:
  "isMounted cached_state
   \<and> dataCache cached_state = Some cached_entry
   \<and> of_int (1000 - timestamp cached_entry) < cacheDuration default_options
   \<and> loadData_start default_options 1000 1 cached_state
       = Returned (cached_state\<lparr>data := Some getFallbackDatasets\<rparr>)
   \<and> \<not> of_int (300000 - timestamp cached_entry) < cacheDuration default_options
   \<and> loadData_start default_options 300000 1 cached_state
       = Awaiting (cached_state\<lparr>loading := True\<rparr>)
   \<and> dataCache (loadData_resume default_options 0 1 (Inr getFallbackDatasets) (initial_state None))
       = Some cached_entry"
proof -
  have m: "isMounted cached_state" and c: "dataCache cached_state = Some cached_entry"
    and i: "isMounted (initial_state None)"
    by (simp_all add: cached_state_def initial_state_def)
  show ?thesis
    using cache_hit_and_expiry [OF m c, of 1000 default_options "initial_state None" 0 1
        getFallbackDatasets]
      cache_hit_and_expiry [OF m c, of 300000 default_options "initial_state None" 0 1
        getFallbackDatasets] m c i
    by (simp add: cached_state_def cached_entry_def initial_state_def default_options_def)
qed

subsection \<open>Existence probe\<close>

text \<open>
  C8. For every file name, \<open>checkFileExists\<close> returns a boolean and never throws. It
  returns true exactly when the name is a non-empty string ending in \<open>.csv\<close> and the HEAD
  probe of its path answers before the timer with an ok status; it returns false for the
  empty name, a name not ending in \<open>.csv\<close>, a probe that loses against the timer, a fetch
  that fails, and a status outside 200 to 299 such as 404.
\<close>

theorem checkFileExists_never_throws:
  "(\<exists>b. checkFileExists probe filename = Inr b)
   \<and> (checkFileExists probe filename = Inr True \<longleftrightarrow>
        (\<exists>f p r. filename = JStr f \<and> getAssetPath f = Inr p \<and> probe p = Some (Inr r) \<and> ok r))
   \<and> checkFileExists probe (JStr []) = Inr False
   \<and> (\<not> endsWith f ''.csv'' \<longrightarrow> checkFileExists probe (JStr f) = Inr False)
   \<and> (getAssetPath f = Inr p \<and> probe p = None \<longrightarrow> checkFileExists probe (JStr f) = Inr False)
   \<and> (getAssetPath f = Inr p \<and> probe p = Some (Inl e)
        \<longrightarrow> checkFileExists probe (JStr f) = Inr False)
   \<and> (getAssetPath f = Inr p \<and> probe p = Some (Inr r) \<and> \<not> ok r
        \<longrightarrow> checkFileExists probe (JStr f) = Inr False)
   \<and> \<not> ok \<lparr>status = 404\<rparr>"
proof -
  have 1: "\<exists>b. checkFileExists probe filename = Inr b"
    by (cases "checkFileExists_try probe filename") (auto simp: checkFileExists_def)
  have 2: "checkFileExists probe filename = Inr True \<longleftrightarrow>
        (\<exists>f p r. filename = JStr f \<and> getAssetPath f = Inr p \<and> probe p = Some (Inr r) \<and> ok r)"
    by (cases filename)
       (auto simp: checkFileExists_def checkFileExists_try_def getAssetPath_def
          split: sum.splits option.splits if_splits)
  have 3: "checkFileExists probe (JStr []) = Inr False"
    by (simp add: checkFileExists_def checkFileExists_try_def)
  have 4: "\<not> endsWith f ''.csv'' \<longrightarrow> checkFileExists probe (JStr f) = Inr False"
    by (simp add: checkFileExists_def checkFileExists_try_def getAssetPath_def)
  have 5: "getAssetPath f = Inr p \<and> probe p = None \<longrightarrow> checkFileExists probe (JStr f) = Inr False"
    by (simp add: checkFileExists_def checkFileExists_try_def)
  have 6: "getAssetPath f = Inr p \<and> probe p = Some (Inl e)
        \<longrightarrow> checkFileExists probe (JStr f) = Inr False"
    by (simp add: checkFileExists_def checkFileExists_try_def)
  have 7: "getAssetPath f = Inr p \<and> probe p = Some (Inr r) \<and> \<not> ok r
        \<longrightarrow> checkFileExists probe (JStr f) = Inr False"
    by (simp add: checkFileExists_def checkFileExists_try_def)
  have 8: "\<not> ok \<lparr>status = 404\<rparr>"
    by (simp add: ok_def)
  from 1 2 3 4 5 6 7 8 show ?thesis by blast
qed

text \<open>
  The probe of \<open>fr-postal-codes-sample.csv\<close>: status 404 gives false, status 200 gives
  true, the timer and a failed fetch give false; a name that does not end in \<open>.csv\<close>
  gives false whatever the probe would answer.
\<close>

theorem checkFileExists_never_throws_witness:
  "getAssetPath ''fr-postal-codes-sample.csv'' = Inr ''public/assets/samples/fr-postal-codes-sample.csv''
   \<and> probe_status 404 ''public/assets/samples/fr-postal-codes-sample.csv'' = Some (Inr \<lparr>status = 404\<rparr>)
   \<and> \<not> ok \<lparr>status = 404\<rparr>
   \<and> checkFileExists (probe_status 404) (JStr ''fr-postal-codes-sample.csv'') = Inr False
   \<and> ok \<lparr>status = 200\<rparr>
   \<and> checkFileExists (probe_status 200) (JStr ''fr-postal-codes-sample.csv'') = Inr True
   \<and> probe_timeout ''public/assets/samples/fr-postal-codes-sample.csv'' = None
   \<and> checkFileExists probe_timeout (JStr ''fr-postal-codes-sample.csv'') = Inr False
   \<and> checkFileExists probe_network_failure (JStr ''fr-postal-codes-sample.csv'') = Inr False
   \<and> \<not> endsWith ''readme.txt'' ''.csv''
   \<and> checkFileExists (probe_status 200) (JStr ''readme.txt'') = Inr False"
proof -
  let ?f = "''fr-postal-codes-sample.csv''"
  let ?p = "''public/assets/samples/fr-postal-codes-sample.csv''"
  have g: "getAssetPath ?f = Inr ?p"
    by (simp add: getAssetPath_def endsWith_def ASSETS_BASE_PATH_def)
  have p: "probe_status 404 ?p = Some (Inr \<lparr>status = 404\<rparr>)"
    "probe_status 200 ?p = Some (Inr \<lparr>status = 200\<rparr>)"
    "probe_timeout ?p = None"
    "probe_network_failure ?p = Some (Inl (Thrown_Error ''Failed to fetch''))"
    by (simp_all add: probe_status_def probe_timeout_def probe_network_failure_def)
  have k: "\<not> ok \<lparr>status = 404\<rparr>" "ok \<lparr>status = 200\<rparr>"
    by (simp_all add: ok_def)
  have t: "\<not> endsWith ''readme.txt'' ''.csv''"
    by (simp add: endsWith_def)
  have a: "checkFileExists (probe_status 404) (JStr ?f) = Inr False"
    using checkFileExists_never_throws [of "probe_status 404" "JStr ?f" ?f ?p _ "\<lparr>status = 404\<rparr>"]
      g p(1) k(1) by blast
  have b: "checkFileExists (probe_status 200) (JStr ?f) = Inr True"
    using checkFileExists_never_throws [of "probe_status 200" "JStr ?f" ?f ?p _ "\<lparr>status = 200\<rparr>"]
      g p(2) k(2) by blast
  have c: "checkFileExists probe_timeout (JStr ?f) = Inr False"
    using checkFileExists_never_throws [of probe_timeout "JStr ?f" ?f ?p] g p(3) by blast
  have d: "checkFileExists probe_network_failure (JStr ?f) = Inr False"
    using checkFileExists_never_throws [of probe_network_failure "JStr ?f" ?f ?p
        "Thrown_Error ''Failed to fetch''"] g p(4) by blast
  have e: "checkFileExists (probe_status 200) (JStr ''readme.txt'') = Inr False"
    using checkFileExists_never_throws [of "probe_status 200" "JStr ''readme.txt''" "''readme.txt''"] t
    by blast
  from g p k t a b c d e show ?thesis by simp
qed

subsection \<open>Validation of one record\<close>

text \<open>What a record that is a non-null object gets as errors and warnings.\<close>

lemma errors_object:
  "truthy d \<Longrightarrow> typeof d = ''object'' \<Longrightarrow>
   errors (validateDatasetDetailed d p) =
     concat (map (\<lambda>v. fst (validate_field d p v)) fieldValidations)
       @ fst (validate_postalCodeCount d p) @ validate_status d p"
  by (simp add: validateDatasetDetailed_def Let_def comp_def)

lemma warnings_object:
  "truthy d \<Longrightarrow> typeof d = ''object'' \<Longrightarrow>
   warnings (validateDatasetDetailed d p) =
     concat (map (\<lambda>v. snd (validate_field d p v)) fieldValidations)
       @ snd (validate_postalCodeCount d p)"
  by (simp add: validateDatasetDetailed_def Let_def comp_def)

lemma isValid_iff_no_errors:
  "isValid (validateDatasetDetailed d p) \<longleftrightarrow> errors (validateDatasetDetailed d p) = []"
  by (simp add: validateDatasetDetailed_def Let_def)

text \<open>Every block names its own field in what it pushes.\<close>

lemma validate_field_error_field:
  "e \<in> set (fst (validate_field d p v)) \<Longrightarrow> field e = vfield v"
  by (auto simp: validate_field_def Let_def split: if_splits jsval.splits option.splits)

lemma validate_field_warning_field:
  "e \<in> set (snd (validate_field d p v)) \<Longrightarrow> field e = vfield v"
  by (auto simp: validate_field_def Let_def split: if_splits jsval.splits option.splits)

lemma validate_postalCodeCount_error_field:
  "e \<in> set (fst (validate_postalCodeCount d p)) \<Longrightarrow> field e = ''postalCodeCount''"
  by (auto simp: validate_postalCodeCount_def Let_def split: if_splits jsval.splits)

lemma validate_status_error_field:
  "e \<in> set (validate_status d p) \<Longrightarrow> field e = ''status''"
  by (auto simp: validate_status_def Let_def split: if_splits jsval.splits)

lemma validate_field_missing:
  "required v \<Longrightarrow> get_prop d (vfield v) = JUndefined \<or> get_prop d (vfield v) = JNull \<Longrightarrow>
   \<exists>e \<in> set (fst (validate_field d p v)). field e = vfield v"
  by (auto simp: validate_field_def Let_def)

lemma postalCodeCount_errors_iff:
  "fst (validate_postalCodeCount d p) = [] \<longleftrightarrow>
     (\<exists>n. get_prop d ''postalCodeCount'' = JNum n \<and> Number_isInteger n \<and> 0 < n)"
  by (auto simp: validate_postalCodeCount_def Let_def split: jsval.splits)

lemma postalCodeCount_warnings_iff:
  "snd (validate_postalCodeCount d p) \<noteq> [] \<longleftrightarrow>
     (\<exists>n. get_prop d ''postalCodeCount'' = JNum n \<and> Number_isInteger n \<and> 10000000 < n)"
  by (auto simp: validate_postalCodeCount_def Let_def split: jsval.splits)

text \<open>A record validates exactly when it satisfies the rules; the path plays no role.\<close>

lemma validate_field_ok_iff:
  "required v \<Longrightarrow> vtype v = ''string'' \<Longrightarrow>
   fst (validate_field d p v) = [] \<longleftrightarrow>
     string_field_ok (get_prop d (vfield v))
       (\<lambda>s. (case minLength v of Some m \<Rightarrow> \<not> (m \<noteq> 0 \<and> length s < m) | None \<Rightarrow> True)
            \<and> (case pattern v of Some P \<Rightarrow> P s | None \<Rightarrow> True))"
  by (cases "get_prop d (vfield v)")
     (auto simp: validate_field_def string_field_ok_def Let_def split: option.splits)

lemma status_errors_iff:
  "validate_status d p = [] \<longleftrightarrow>
     (case get_prop d ''status'' of JStr s \<Rightarrow> s \<in> set validStatuses | _ \<Rightarrow> False)"
  by (auto simp: validate_status_def Let_def split: jsval.splits)

lemma postalCodeCount_errors_iff':
  "fst (validate_postalCodeCount d p) = [] \<longleftrightarrow>
     (case get_prop d ''postalCodeCount'' of JNum n \<Rightarrow> Number_isInteger n \<and> 0 < n | _ \<Rightarrow> False)"
  by (auto simp: validate_postalCodeCount_def Let_def split: jsval.splits)

lemma isValid_iff_rules:
  "isValid (validateDatasetDetailed d p) \<longleftrightarrow> satisfies_all_rules d"
proof (cases "truthy d \<and> typeof d = ''object''")
  case False
  then show ?thesis
    by (auto simp: validateDatasetDetailed_def satisfies_all_rules_def)
next
  case True
  then have "isValid (validateDatasetDetailed d p) \<longleftrightarrow>
      (\<forall>v \<in> set fieldValidations. fst (validate_field d p v) = [])
      \<and> fst (validate_postalCodeCount d p) = [] \<and> validate_status d p = []"
    by (simp add: isValid_iff_no_errors errors_object)
  also have "\<dots> \<longleftrightarrow> satisfies_all_rules d"
    using True
    by (simp add: fieldValidations_def validate_field_ok_iff status_errors_iff
        postalCodeCount_errors_iff' satisfies_all_rules_def not_less)
  finally show ?thesis .
qed

lemma isValid_path_independent:
  "isValid (validateDatasetDetailed d p) = validateDataset d"
  by (simp add: validateDataset_def isValid_iff_rules)

lemma error_fields_object:
  assumes "truthy d" "typeof d = ''object''"
    and "e \<in> set (errors (validateDatasetDetailed d p))"
  shows "field e \<in> set schema_fields"
  using assms
  by (auto simp: errors_object fieldValidations_def schema_fields_def
      dest!: validate_field_error_field validate_postalCodeCount_error_field
        validate_status_error_field)

lemma postalCodeCount_error_iff:
  assumes "truthy d" "typeof d = ''object''"
  shows "(\<exists>e \<in> set (errors (validateDatasetDetailed d p)). field e = ''postalCodeCount'')
     \<longleftrightarrow> fst (validate_postalCodeCount d p) \<noteq> []"
proof
  assume "\<exists>e \<in> set (errors (validateDatasetDetailed d p)). field e = ''postalCodeCount''"
  then obtain e where e: "e \<in> set (errors (validateDatasetDetailed d p))"
    "field e = ''postalCodeCount''" by blast
  from e(1) have "e \<in> set (fst (validate_postalCodeCount d p))
      \<or> (\<exists>v \<in> set fieldValidations. e \<in> set (fst (validate_field d p v)))
      \<or> e \<in> set (validate_status d p)"
    by (auto simp: errors_object assms)
  then show "fst (validate_postalCodeCount d p) \<noteq> []"
    using e(2)
    by (auto simp: fieldValidations_def dest!: validate_field_error_field
        validate_status_error_field)
next
  assume "fst (validate_postalCodeCount d p) \<noteq> []"
  then obtain e where e: "e \<in> set (fst (validate_postalCodeCount d p))"
    by (cases "fst (validate_postalCodeCount d p)") auto
  then have "field e = ''postalCodeCount''"
    by (rule validate_postalCodeCount_error_field)
  with e show "\<exists>e \<in> set (errors (validateDatasetDetailed d p)). field e = ''postalCodeCount''"
    by (auto simp: errors_object assms)
qed

lemma postalCodeCount_warning_iff:
  assumes "truthy d" "typeof d = ''object''"
  shows "(\<exists>e \<in> set (warnings (validateDatasetDetailed d p)). field e = ''postalCodeCount'')
     \<longleftrightarrow> snd (validate_postalCodeCount d p) \<noteq> []"
proof
  assume "\<exists>e \<in> set (warnings (validateDatasetDetailed d p)). field e = ''postalCodeCount''"
  then obtain e where e: "e \<in> set (warnings (validateDatasetDetailed d p))"
    "field e = ''postalCodeCount''" by blast
  from e(1) have "e \<in> set (snd (validate_postalCodeCount d p))
      \<or> (\<exists>v \<in> set fieldValidations. e \<in> set (snd (validate_field d p v)))"
    by (auto simp: warnings_object assms)
  then show "snd (validate_postalCodeCount d p) \<noteq> []"
    using e(2)
    by (auto simp: fieldValidations_def dest!: validate_field_warning_field)
next
  assume "snd (validate_postalCodeCount d p) \<noteq> []"
  then obtain e where e: "e \<in> set (snd (validate_postalCodeCount d p))"
    by (cases "snd (validate_postalCodeCount d p)") auto
  then have "field e = ''postalCodeCount''"
    by (auto simp: validate_postalCodeCount_def Let_def split: if_splits jsval.splits)
  with e show "\<exists>e \<in> set (warnings (validateDatasetDetailed d p)). field e = ''postalCodeCount''"
    by (auto simp: warnings_object assms)
qed

text \<open>
  C5. For every record that is a non-null object, \<open>validateDatasetDetailed\<close> treats
  \<open>postalCodeCount\<close> as follows: a missing value (absent or \<open>null\<close>), a value that is no
  number, a number that is no integer and a number \<open>\<le> 0\<close> each give an error on the field
  \<open>postalCodeCount\<close>, so the record is not valid; the value 1 gives neither an error nor a
  warning on that field; an integer above 10,000,000 gives no error on that field but a
  warning on it.
\<close>

theorem postalCodeCount_treatment:
  assumes "truthy d" "typeof d = ''object''"
  shows "((get_prop d ''postalCodeCount'' = JUndefined
           \<or> get_prop d ''postalCodeCount'' = JNull
           \<or> typeof (get_prop d ''postalCodeCount'') \<noteq> ''number''
           \<or> (\<exists>n. get_prop d ''postalCodeCount'' = JNum n \<and> (\<not> Number_isInteger n \<or> n \<le> 0)))
          \<longrightarrow> (\<exists>e \<in> set (errors (validateDatasetDetailed d p)). field e = ''postalCodeCount'')
              \<and> \<not> isValid (validateDatasetDetailed d p))
       \<and> (get_prop d ''postalCodeCount'' = JNum 1
          \<longrightarrow> (\<forall>e \<in> set (errors (validateDatasetDetailed d p)). field e \<noteq> ''postalCodeCount'')
              \<and> (\<forall>w \<in> set (warnings (validateDatasetDetailed d p)). field w \<noteq> ''postalCodeCount''))
       \<and> (\<forall>n. get_prop d ''postalCodeCount'' = JNum n \<and> Number_isInteger n \<and> 10000000 < n
          \<longrightarrow> (\<forall>e \<in> set (errors (validateDatasetDetailed d p)). field e \<noteq> ''postalCodeCount'')
              \<and> (\<exists>w \<in> set (warnings (validateDatasetDetailed d p)). field w = ''postalCodeCount''))"
proof -
  have E: "(\<exists>e \<in> set (errors (validateDatasetDetailed d p)). field e = ''postalCodeCount'')
     \<longleftrightarrow> \<not> (\<exists>n. get_prop d ''postalCodeCount'' = JNum n \<and> Number_isInteger n \<and> 0 < n)"
    using postalCodeCount_error_iff [OF assms, of p] by (simp add: postalCodeCount_errors_iff)
  have W: "(\<exists>e \<in> set (warnings (validateDatasetDetailed d p)). field e = ''postalCodeCount'')
     \<longleftrightarrow> (\<exists>n. get_prop d ''postalCodeCount'' = JNum n \<and> Number_isInteger n \<and> 10000000 < n)"
    using postalCodeCount_warning_iff [OF assms, of p] by (simp add: postalCodeCount_warnings_iff)
  have V: "isValid (validateDatasetDetailed d p) \<Longrightarrow>
      \<not> (\<exists>e \<in> set (errors (validateDatasetDetailed d p)). field e = ''postalCodeCount'')"
    by (simp add: isValid_iff_no_errors)
  have I1: "Number_isInteger 1" by (simp add: Number_isInteger_def)
  show ?thesis
  proof (intro conjI impI allI)
    assume a: "get_prop d ''postalCodeCount'' = JUndefined
           \<or> get_prop d ''postalCodeCount'' = JNull
           \<or> typeof (get_prop d ''postalCodeCount'') \<noteq> ''number''
           \<or> (\<exists>n. get_prop d ''postalCodeCount'' = JNum n \<and> (\<not> Number_isInteger n \<or> n \<le> 0))"
    then have "\<not> (\<exists>n. get_prop d ''postalCodeCount'' = JNum n \<and> Number_isInteger n \<and> 0 < n)"
      by auto
    then show "\<exists>e \<in> set (errors (validateDatasetDetailed d p)). field e = ''postalCodeCount''"
      using E by blast
    then show "\<not> isValid (validateDatasetDetailed d p)" using V by blast
  next
    assume "get_prop d ''postalCodeCount'' = JNum 1"
    then show "\<forall>e \<in> set (errors (validateDatasetDetailed d p)). field e \<noteq> ''postalCodeCount''"
      using E I1 by auto
  next
    assume "get_prop d ''postalCodeCount'' = JNum 1"
    then show "\<forall>w \<in> set (warnings (validateDatasetDetailed d p)). field w \<noteq> ''postalCodeCount''"
      using W by auto
  next
    fix n assume "get_prop d ''postalCodeCount'' = JNum n \<and> Number_isInteger n \<and> 10000000 < n"
    then show "\<forall>e \<in> set (errors (validateDatasetDetailed d p)). field e \<noteq> ''postalCodeCount''"
      using E by auto
  next
    fix n assume "get_prop d ''postalCodeCount'' = JNum n \<and> Number_isInteger n \<and> 10000000 < n"
    then show "\<exists>w \<in> set (warnings (validateDatasetDetailed d p)). field w = ''postalCodeCount''"
      using W by auto
  qed
qed

text \<open>The counts 0, 1 and 10,000,001 in an otherwise well-formed record.\<close>

theorem postalCodeCount_treatment_witness:
  "truthy record_count_zero \<and> typeof record_count_zero = ''object''
   \<and> get_prop record_count_zero ''postalCodeCount'' = JNum 0
   \<and> (\<exists>e \<in> set (errors (validateDatasetDetailed record_count_zero ''dataset'')).
         field e = ''postalCodeCount'')
   \<and> \<not> isValid (validateDatasetDetailed record_count_zero ''dataset'')
   \<and> get_prop record_count_one ''postalCodeCount'' = JNum 1
   \<and> \<not> (\<exists>e \<in> set (errors (validateDatasetDetailed record_count_one ''dataset'')).
           field e = ''postalCodeCount'')
   \<and> isValid (validateDatasetDetailed record_count_one ''dataset'')
   \<and> get_prop record_count_huge ''postalCodeCount'' = JNum 10000001
   \<and> Number_isInteger 10000001
   \<and> \<not> (\<exists>e \<in> set (errors (validateDatasetDetailed record_count_huge ''dataset'')).
           field e = ''postalCodeCount'')
   \<and> (\<exists>w \<in> set (warnings (validateDatasetDetailed record_count_huge ''dataset'')).
         field w = ''postalCodeCount'')
   \<and> isValid (validateDatasetDetailed record_count_huge ''dataset'')"
proof -
  have t: "truthy record_count_zero" "typeof record_count_zero = ''object''"
    "truthy record_count_one" "typeof record_count_one = ''object''"
    "truthy record_count_huge" "typeof record_count_huge = ''object''"
    by (simp_all add: record_count_zero_def record_count_one_def record_count_huge_def
        sample_record_def)
  have g: "get_prop record_count_zero ''postalCodeCount'' = JNum 0"
    "get_prop record_count_one ''postalCodeCount'' = JNum 1"
    "get_prop record_count_huge ''postalCodeCount'' = JNum 10000001"
    by (simp_all add: record_count_zero_def record_count_one_def record_count_huge_def
        sample_record_def)
  have i: "Number_isInteger 10000001" "Number_isInteger 0"
    by (simp_all add: Number_isInteger_def)
  have v: "isValid (validateDatasetDetailed record_count_one ''dataset'')"
    "isValid (validateDatasetDetailed record_count_huge ''dataset'')"
    by code_simp+
  have z: "(\<exists>e \<in> set (errors (validateDatasetDetailed record_count_zero ''dataset'')).
         field e = ''postalCodeCount'')
     \<and> \<not> isValid (validateDatasetDetailed record_count_zero ''dataset'')"
    using postalCodeCount_treatment [OF t(1,2), of "''dataset''"] g(1) i(2) by simp
  have one: "\<not> (\<exists>e \<in> set (errors (validateDatasetDetailed record_count_one ''dataset'')).
           field e = ''postalCodeCount'')"
    using postalCodeCount_treatment [OF t(3,4), of "''dataset''"] g(2) by simp
  have h: "\<not> (\<exists>e \<in> set (errors (validateDatasetDetailed record_count_huge ''dataset'')).
           field e = ''postalCodeCount'')
     \<and> (\<exists>w \<in> set (warnings (validateDatasetDetailed record_count_huge ''dataset'')).
         field w = ''postalCodeCount'')"
    using postalCodeCount_treatment [OF t(5,6), of "''dataset''"] g(3) i(1) by simp
  from t g i v z one h show ?thesis by simp
qed

lemma fieldValidations_fields:
  "map vfield fieldValidations
     = [''id'', ''countryName'', ''countryCode'', ''region'', ''sampleFileName'']"
  by (simp add: fieldValidations_def)

lemma fieldValidations_required:
  "v \<in> set fieldValidations \<Longrightarrow> required v"
  by (auto simp: fieldValidations_def)

lemma schema_fields_cases:
  assumes "f \<in> set schema_fields"
  shows "f \<in> set (map vfield fieldValidations) \<or> f = ''postalCodeCount'' \<or> f = ''status''"
proof -
  from assms have "f = ''id'' \<or> f = ''countryName'' \<or> f = ''countryCode''
     \<or> f = ''postalCodeCount'' \<or> f = ''region'' \<or> f = ''status'' \<or> f = ''sampleFileName''"
    unfolding schema_fields_def by (simp only: list.set insert_iff empty_iff simp_thms)
  moreover have "set (map vfield fieldValidations)
      = {''id'', ''countryName'', ''countryCode'', ''region'', ''sampleFileName''}"
    unfolding fieldValidations_fields by (simp only: list.set)
  ultimately show ?thesis
    by (elim disjE) (simp_all only: insert_iff refl simp_thms)
qed

lemma missing_field_error:
  assumes "truthy d" "typeof d = ''object''" "f \<in> set schema_fields"
    and "get_prop d f = JUndefined \<or> get_prop d f = JNull"
  shows "\<exists>e \<in> set (errors (validateDatasetDetailed d p)). field e = f"
proof -
  consider (str) "f \<in> set (map vfield fieldValidations)"
    | (pcc) "f = ''postalCodeCount''" | (st) "f = ''status''"
    using schema_fields_cases [OF assms(3)] by blast
  then show ?thesis
  proof cases
    case str
    then obtain v where v: "v \<in> set fieldValidations" "vfield v = f" by auto
    from validate_field_missing [OF fieldValidations_required [OF v(1)], of d p] assms(4) v(2)
    obtain e where "e \<in> set (fst (validate_field d p v))" "field e = f" by auto
    with v(1) show ?thesis
      by (auto simp: errors_object assms(1,2))
  next
    case pcc
    with assms(4) have "fst (validate_postalCodeCount d p) \<noteq> []"
      by (auto simp: postalCodeCount_errors_iff)
    with postalCodeCount_error_iff [OF assms(1,2), of p] pcc show ?thesis by simp
  next
    case st
    with assms(4) obtain e where "e \<in> set (validate_status d p)"
      by (auto simp: validate_status_def)
    moreover from this have "field e = ''status''" by (rule validate_status_error_field)
    ultimately show ?thesis using st by (auto simp: errors_object assms(1,2))
  qed
qed

text \<open>
  C6. For every record that is a non-null object and misses a required field (\<open>id\<close>,
  \<open>countryName\<close>, \<open>countryCode\<close>, \<open>postalCodeCount\<close>, \<open>region\<close>, \<open>status\<close> or
  \<open>sampleFileName\<close> is absent or \<open>null\<close>), \<open>validateDatasetDetailed\<close> returns
  \<open>isValid = false\<close> with an error naming that field. For every record that satisfies all
  rules it returns \<open>isValid = true\<close> with an empty list of errors, whatever its warnings;
  and only such records are valid.
\<close>

theorem required_fields_and_rules:
  "(truthy d \<and> typeof d = ''object'' \<and> f \<in> set schema_fields
      \<and> (get_prop d f = JUndefined \<or> get_prop d f = JNull)
     \<longrightarrow> \<not> isValid (validateDatasetDetailed d p)
         \<and> (\<exists>e \<in> set (errors (validateDatasetDetailed d p)). field e = f))
   \<and> (satisfies_all_rules d
     \<longrightarrow> isValid (validateDatasetDetailed d p) \<and> errors (validateDatasetDetailed d p) = [])
   \<and> (isValid (validateDatasetDetailed d p) \<longrightarrow> satisfies_all_rules d)"
proof (intro conjI impI)
  assume a: "truthy d \<and> typeof d = ''object'' \<and> f \<in> set schema_fields
      \<and> (get_prop d f = JUndefined \<or> get_prop d f = JNull)"
  then show "\<exists>e \<in> set (errors (validateDatasetDetailed d p)). field e = f"
    using missing_field_error by blast
  then show "\<not> isValid (validateDatasetDetailed d p)"
    by (auto simp: isValid_iff_no_errors)
next
  assume "satisfies_all_rules d"
  then show "isValid (validateDatasetDetailed d p)" by (simp add: isValid_iff_rules)
  then show "errors (validateDatasetDetailed d p) = []" by (simp add: isValid_iff_no_errors)
next
  assume "isValid (validateDatasetDetailed d p)"
  then show "satisfies_all_rules d" by (simp add: isValid_iff_rules)
qed

text \<open>
  The empty object misses \<open>region\<close>; the record with 10,000,001 postal codes satisfies
  the rules and validates with a warning.
\<close>

theorem required_fields_and_rules_witness:
  "truthy (JObj []) \<and> typeof (JObj []) = ''object'' \<and> ''region'' \<in> set schema_fields
   \<and> get_prop (JObj []) ''region'' = JUndefined
   \<and> \<not> isValid (validateDatasetDetailed (JObj []) ''dataset'')
   \<and> (\<exists>e \<in> set (errors (validateDatasetDetailed (JObj []) ''dataset'')). field e = ''region'')
   \<and> satisfies_all_rules record_count_huge
   \<and> isValid (validateDatasetDetailed record_count_huge ''dataset'')
   \<and> errors (validateDatasetDetailed record_count_huge ''dataset'') = []
   \<and> warnings (validateDatasetDetailed record_count_huge ''dataset'') \<noteq> []"
proof -
  have a: "truthy (JObj [])" "typeof (JObj []) = ''object''"
    "get_prop (JObj []) ''region'' = JUndefined"
    by simp_all
  have f: "''region'' \<in> set schema_fields"
    by (simp add: schema_fields_def)
  have r: "satisfies_all_rules record_count_huge"
    by code_simp
  have w: "warnings (validateDatasetDetailed record_count_huge ''dataset'') \<noteq> []"
    by code_simp
  from required_fields_and_rules [of "JObj []" "''region''" "''dataset''"] a f
  have m: "\<not> isValid (validateDatasetDetailed (JObj []) ''dataset'')
     \<and> (\<exists>e \<in> set (errors (validateDatasetDetailed (JObj []) ''dataset'')). field e = ''region'')"
    by blast
  from required_fields_and_rules [of record_count_huge "''region''" "''dataset''"] r
  have v: "isValid (validateDatasetDetailed record_count_huge ''dataset'')
     \<and> errors (validateDatasetDetailed record_count_huge ''dataset'') = []"
    by blast
  from a f r w m v show ?thesis by simp
qed

subsection \<open>Filtering a list of records\<close>

lemma filterValidDatasets_loop_eq:
  "filterValidDatasets_loop i ds vs ivs =
     (vs @ filter validateDataset ds,
      ivs @ map invalid_entry (filter (\<lambda>x. \<not> validateDataset (snd x)) (enumerate i ds)))"
proof (induction ds arbitrary: i vs ivs)
  case Nil
  show ?case by simp
next
  case (Cons d ds)
  show ?case
    by (simp add: Cons.IH isValid_path_independent invalid_entry_def Let_def)
qed

lemma length_filter_enumerate:
  "length (filter (\<lambda>x. P (snd x)) (enumerate i ds)) = length (filter P ds)"
  by (induction ds arbitrary: i) auto

lemma map_snd_filter_enumerate:
  "map snd (filter (\<lambda>x. P (snd x)) (enumerate i ds)) = filter P ds"
  by (induction ds arbitrary: i) auto

lemma invalid_record_has_errors:
  "\<not> validateDataset d \<Longrightarrow> errors (validateDatasetDetailed d p) \<noteq> []"
  using isValid_path_independent [of d p] by (simp add: isValid_iff_no_errors)

lemma error_fields_any:
  assumes "e \<in> set (errors (validateDatasetDetailed d p))"
  shows "field e \<in> set schema_fields \<or> (\<not> (truthy d \<and> typeof d = ''object'') \<and> field e = p)"
proof (cases "truthy d \<and> typeof d = ''object''")
  case True
  with assms show ?thesis using error_fields_object by blast
next
  case False
  with assms show ?thesis by (auto simp: validateDatasetDetailed_def)
qed

text \<open>
  C4. For every array of raw records, \<open>filterValidDatasets\<close> is a partition that depends on
  nothing but the array: \<open>valid\<close> holds the records that pass \<open>validateDatasetDetailed\<close>,
  in input order, and no other record; \<open>invalid\<close> holds the failing records, in input
  order, each paired with the errors that \<open>validateDatasetDetailed\<close> reports for it at its
  index; the errors of an entry are not empty and each names a field of the schema, or,
  for a record that is no object, the path of the record; the two lengths add up to
  \<open>totalProcessed\<close>, which is the length of the input.
\<close>

theorem filterValidDatasets_partition:
  "valid (filterValidDatasets ds) = filter validateDataset ds
   \<and> invalid (filterValidDatasets ds)
       = map invalid_entry (filter (\<lambda>x. \<not> validateDataset (snd x)) (enumerate 0 ds))
   \<and> map dataset (invalid (filterValidDatasets ds)) = filter (\<lambda>d. \<not> validateDataset d) ds
   \<and> length (valid (filterValidDatasets ds)) + length (invalid (filterValidDatasets ds))
       = totalProcessed (filterValidDatasets ds)
   \<and> totalProcessed (filterValidDatasets ds) = length ds
   \<and> (\<forall>d \<in> set (valid (filterValidDatasets ds)). validateDataset d)
   \<and> (\<forall>x \<in> set (invalid (filterValidDatasets ds)).
         \<not> validateDataset (dataset x) \<and> dataset_errors x \<noteq> []
         \<and> (\<forall>e \<in> set (dataset_errors x).
               field e \<in> set schema_fields
               \<or> (\<not> (truthy (dataset x) \<and> typeof (dataset x) = ''object'')
                  \<and> path e = Some (field e))))"
proof -
  let ?r = "filterValidDatasets ds"
  have v: "valid ?r = filter validateDataset ds"
    and i: "invalid ?r = map invalid_entry (filter (\<lambda>x. \<not> validateDataset (snd x)) (enumerate 0 ds))"
    and t: "totalProcessed ?r = length ds"
    by (simp_all add: filterValidDatasets_def filterValidDatasets_loop_eq Let_def)
  have m: "map dataset (invalid ?r) = filter (\<lambda>d. \<not> validateDataset d) ds"
    using map_snd_filter_enumerate [of "\<lambda>d. \<not> validateDataset d" 0 ds]
    by (simp add: i invalid_entry_def comp_def)
  have l: "length (valid ?r) + length (invalid ?r) = length ds"
    using sum_length_filter_compl [of validateDataset ds]
    by (simp add: v i length_filter_enumerate [of "\<lambda>d. \<not> validateDataset d"])
  have x: "\<forall>x \<in> set (invalid ?r).
         \<not> validateDataset (dataset x) \<and> dataset_errors x \<noteq> []
         \<and> (\<forall>e \<in> set (dataset_errors x).
               field e \<in> set schema_fields
               \<or> (\<not> (truthy (dataset x) \<and> typeof (dataset x) = ''object'')
                  \<and> path e = Some (field e)))"
  proof
    fix x assume "x \<in> set (invalid ?r)"
    then obtain j d where jd: "x = invalid_entry (j, d)" "\<not> validateDataset d"
      by (auto simp: i)
    have "\<forall>e \<in> set (dataset_errors x). field e \<in> set schema_fields
               \<or> (\<not> (truthy (dataset x) \<and> typeof (dataset x) = ''object'')
                  \<and> path e = Some (field e))"
    proof
      fix e assume e: "e \<in> set (dataset_errors x)"
      show "field e \<in> set schema_fields
               \<or> (\<not> (truthy (dataset x) \<and> typeof (dataset x) = ''object'')
                  \<and> path e = Some (field e))"
      proof (cases "truthy d \<and> typeof d = ''object''")
        case True
        with e jd(1) show ?thesis
          using error_fields_object by (auto simp: invalid_entry_def)
      next
        case False
        with e jd(1) show ?thesis
          by (auto simp: invalid_entry_def validateDatasetDetailed_def)
      qed
    qed
    with jd show "\<not> validateDataset (dataset x) \<and> dataset_errors x \<noteq> []
         \<and> (\<forall>e \<in> set (dataset_errors x).
               field e \<in> set schema_fields
               \<or> (\<not> (truthy (dataset x) \<and> typeof (dataset x) = ''object'')
                  \<and> path e = Some (field e)))"
      by (simp add: invalid_entry_def invalid_record_has_errors)
  qed
  show ?thesis
    using v i m l t x by simp
qed

text \<open>A well-formed record, \<open>null\<close>, and a record whose status is \<open>bogus\<close>.\<close>

theorem filterValidDatasets_partition_witness:
  "valid (filterValidDatasets [record_fr, JNull, record_bogus_status]) = [record_fr]
   \<and> map dataset (invalid (filterValidDatasets [record_fr, JNull, record_bogus_status]))
       = [JNull, record_bogus_status]
   \<and> length (valid (filterValidDatasets [record_fr, JNull, record_bogus_status]))
       + length (invalid (filterValidDatasets [record_fr, JNull, record_bogus_status])) = 3
   \<and> totalProcessed (filterValidDatasets [record_fr, JNull, record_bogus_status]) = 3"
proof -
  have v: "validateDataset record_fr" "\<not> validateDataset JNull"
    "\<not> validateDataset record_bogus_status"
    by code_simp+
  let ?xs = "[record_fr, JNull, record_bogus_status]"
  from filterValidDatasets_partition [of ?xs]
  have p: "valid (filterValidDatasets ?xs) = filter validateDataset ?xs"
    "map dataset (invalid (filterValidDatasets ?xs)) = filter (\<lambda>d. \<not> validateDataset d) ?xs"
    "length (valid (filterValidDatasets ?xs)) + length (invalid (filterValidDatasets ?xs))
       = totalProcessed (filterValidDatasets ?xs)"
    "totalProcessed (filterValidDatasets ?xs) = length ?xs"
    by blast+
  from p(3,4) have "length (valid (filterValidDatasets ?xs))
      + length (invalid (filterValidDatasets ?xs)) = 3"
    by simp
  with p(1,2,4) v show ?thesis by simp
qed

subsection \<open>Fallback and recovery\<close>

lemma fallback_valid: "validateDataset (hd getFallbackDatasets)"
  by code_simp

lemma fallback_errors: "errors (validateDatasetDetailed (hd getFallbackDatasets) ''dataset'') = []"
  using fallback_valid by (simp add: validateDataset_def isValid_iff_no_errors)

lemma fallback_filter: "valid (filterValidDatasets getFallbackDatasets) = getFallbackDatasets"
proof -
  have "getFallbackDatasets = [hd getFallbackDatasets]"
    by (simp add: getFallbackDatasets_def)
  then have "filter validateDataset getFallbackDatasets = getFallbackDatasets"
    using fallback_valid by (metis filter.simps(1) filter.simps(2))
  then show ?thesis
    by (simp add: filterValidDatasets_def filterValidDatasets_loop_eq Let_def)
qed

text \<open>
  C10. \<open>getFallbackDatasets()\<close> returns exactly one record, and that record passes
  \<open>validateDatasetDetailed\<close> with no errors; so \<open>filterValidDatasets\<close> keeps it, its valid
  list is not empty, and for every error whose \<open>recoverable\<close> flag is true
  \<open>attemptRecovery\<close> succeeds with the fallback record, whatever the emergency cache holds.
\<close>

theorem fallback_recovery:
  "length getFallbackDatasets = 1
   \<and> isValid (validateDatasetDetailed (hd getFallbackDatasets) ''dataset'')
   \<and> errors (validateDatasetDetailed (hd getFallbackDatasets) ''dataset'') = []
   \<and> valid (filterValidDatasets getFallbackDatasets) = getFallbackDatasets
   \<and> valid (filterValidDatasets getFallbackDatasets) \<noteq> []
   \<and> (recoverable e \<longrightarrow>
        attemptRecovery e c = Inr getFallbackDatasets \<and> getFallbackDatasets \<noteq> [])"
proof -
  have l: "length getFallbackDatasets = 1"
    by (simp add: getFallbackDatasets_def)
  then have n: "getFallbackDatasets \<noteq> []" by auto
  have v: "isValid (validateDatasetDetailed (hd getFallbackDatasets) ''dataset'')"
    using fallback_valid by (simp add: validateDataset_def)
  have r: "recoverable e \<longrightarrow> attemptRecovery e c = Inr getFallbackDatasets"
    using n by (simp add: attemptRecovery_def Let_def fallback_filter)
  show ?thesis
    using l n v r fallback_errors fallback_filter by simp
qed

text \<open>Recovery from the loader's timeout, with nothing in the emergency cache.\<close>

theorem fallback_recovery_witness:
  "recoverable timeout_failure
   \<and> attemptRecovery timeout_failure Cache_empty = Inr getFallbackDatasets
   \<and> getFallbackDatasets \<noteq> []
   \<and> length getFallbackDatasets = 1"
proof -
  have r: "recoverable timeout_failure"
    by (simp add: timeout_failure_def)
  show ?thesis
    using fallback_recovery [of timeout_failure Cache_empty] r by simp
qed

subsection \<open>Validation failures of the loader\<close>

lemma collection_isValid_iff:
  "validateDatasetCollectionDetailed doc = Inr cv \<Longrightarrow> isValid cv \<longleftrightarrow> errors cv = []"
  by (auto simp: validateDatasetCollectionDetailed_def Let_def split: if_splits)

lemma valid_envelope_has_array:
  assumes "validateDatasetCollectionDetailed doc = Inr cv" "isValid cv"
  shows "\<exists>ds. get_prop doc ''datasets'' = JArr ds"
proof -
  from assms have "fst (validate_datasets_property doc) = []"
    by (auto simp: validateDatasetCollectionDetailed_def Let_def split: if_splits)
  then show ?thesis
    by (auto simp: validate_datasets_property_def split: if_splits jsval.splits)
qed

text \<open>
  C7. Whenever the validation of the collection envelope reports an error, \<open>loadDatasets\<close>
  fails with a \<open>ValidationError\<close> that is not recoverable, determined by the envelope's
  errors alone: the filtering of the records plays no part. When the envelope is valid, its
  \<open>datasets\<close> is an array; if no record of it survives the filtering, \<open>loadDatasets\<close> fails
  with a \<open>ValidationError\<close> that is recoverable, and otherwise it returns the surviving
  records.
\<close>

theorem loadDatasets_validation_failures:
  "(validateDatasetCollectionDetailed doc = Inr cv \<and> errors cv \<noteq> []
     \<longrightarrow> loadDatasets (Some (Inr doc))
          = Inl \<lparr>emessage = ERROR_MESSAGES VALIDATION_ERROR,
                 cause = Some (join '', '' (map (\<lambda>e. field e @ '': '' @ message e) (errors cv))),
                 code = Some VALIDATION_ERROR, recoverable = False\<rparr>)
   \<and> (validateDatasetCollectionDetailed doc = Inr cv \<and> errors cv = []
     \<longrightarrow> (\<exists>ds. get_prop doc ''datasets'' = JArr ds))
   \<and> (validateDatasetCollectionDetailed doc = Inr cv \<and> errors cv = []
        \<and> get_prop doc ''datasets'' = JArr ds \<and> filter validateDataset ds = []
     \<longrightarrow> loadDatasets (Some (Inr doc))
          = Inl \<lparr>emessage = ''No valid datasets found. Using fallback data.'',
                 cause = Some ''All datasets failed validation'',
                 code = Some VALIDATION_ERROR, recoverable = True\<rparr>)
   \<and> (validateDatasetCollectionDetailed doc = Inr cv \<and> errors cv = []
        \<and> get_prop doc ''datasets'' = JArr ds \<and> filter validateDataset ds \<noteq> []
     \<longrightarrow> loadDatasets (Some (Inr doc)) = Inr (filter validateDataset ds))"
proof (intro conjI impI)
  assume a: "validateDatasetCollectionDetailed doc = Inr cv \<and> errors cv \<noteq> []"
  then have "\<not> isValid cv" using collection_isValid_iff by blast
  with a show "loadDatasets (Some (Inr doc))
          = Inl \<lparr>emessage = ERROR_MESSAGES VALIDATION_ERROR,
                 cause = Some (join '', '' (map (\<lambda>e. field e @ '': '' @ message e) (errors cv))),
                 code = Some VALIDATION_ERROR, recoverable = False\<rparr>"
    by (simp add: loadDatasets_def loadDatasets_catch_def)
next
  assume a: "validateDatasetCollectionDetailed doc = Inr cv \<and> errors cv = []"
  then have "isValid cv" using collection_isValid_iff by blast
  with a show "\<exists>ds. get_prop doc ''datasets'' = JArr ds"
    using valid_envelope_has_array by blast
next
  assume a: "validateDatasetCollectionDetailed doc = Inr cv \<and> errors cv = []
        \<and> get_prop doc ''datasets'' = JArr ds \<and> filter validateDataset ds = []"
  then have "isValid cv" using collection_isValid_iff by blast
  moreover have "valid (filterValidDatasets ds) = filter validateDataset ds"
    by (simp add: filterValidDatasets_def filterValidDatasets_loop_eq Let_def)
  ultimately show "loadDatasets (Some (Inr doc))
          = Inl \<lparr>emessage = ''No valid datasets found. Using fallback data.'',
                 cause = Some ''All datasets failed validation'',
                 code = Some VALIDATION_ERROR, recoverable = True\<rparr>"
    using a by (simp add: loadDatasets_def loadDatasets_catch_def Let_def)
next
  assume a: "validateDatasetCollectionDetailed doc = Inr cv \<and> errors cv = []
        \<and> get_prop doc ''datasets'' = JArr ds \<and> filter validateDataset ds \<noteq> []"
  then have "isValid cv" using collection_isValid_iff by blast
  moreover have "valid (filterValidDatasets ds) = filter validateDataset ds"
    by (simp add: filterValidDatasets_def filterValidDatasets_loop_eq Let_def)
  ultimately show "loadDatasets (Some (Inr doc)) = Inr (filter validateDataset ds)"
    using a by (simp add: loadDatasets_def loadDatasets_catch_def Let_def)
qed

text \<open>
  The document \<open>null\<close> has a malformed envelope; a well-formed envelope around the one
  record \<open>null\<close> leaves no record.
\<close>

theorem loadDatasets_validation_failures_witness:
  "validateDatasetCollectionDetailed JNull
     = Inr \<lparr>isValid = False,
            errors = [\<lparr>field = ''root'', val = JNull,
                       message = ''Data must be a non-null object'', path = None\<rparr>],
            warnings = []\<rparr>
   \<and> loadDatasets (Some (Inr JNull))
       = Inl \<lparr>emessage = ERROR_MESSAGES VALIDATION_ERROR,
              cause = Some ''root: Data must be a non-null object'',
              code = Some VALIDATION_ERROR, recoverable = False\<rparr>
   \<and> validateDatasetCollectionDetailed (sample_collection [JNull]) = Inr no_findings
   \<and> errors no_findings = []
   \<and> get_prop (sample_collection [JNull]) ''datasets'' = JArr [JNull]
   \<and> filter validateDataset [JNull] = []
   \<and> loadDatasets (Some (Inr (sample_collection [JNull])))
       = Inl \<lparr>emessage = ''No valid datasets found. Using fallback data.'',
              cause = Some ''All datasets failed validation'',
              code = Some VALIDATION_ERROR, recoverable = True\<rparr>"
proof -
  let ?cv = "\<lparr>isValid = False,
            errors = [\<lparr>field = ''root'', val = JNull,
                       message = ''Data must be a non-null object'', path = None\<rparr>],
            warnings = []\<rparr>"
  have a: "validateDatasetCollectionDetailed JNull = Inr ?cv"
    by (simp add: validateDatasetCollectionDetailed_def)
  have b: "validateDatasetCollectionDetailed (sample_collection [JNull]) = Inr no_findings"
    by code_simp
  have c: "errors no_findings = []"
    by (simp add: no_findings_def)
  have d: "get_prop (sample_collection [JNull]) ''datasets'' = JArr [JNull]"
    by (simp add: sample_collection_def)
  have e: "filter validateDataset [JNull] = []"
    by code_simp
  have f: "loadDatasets (Some (Inr JNull))
       = Inl \<lparr>emessage = ERROR_MESSAGES VALIDATION_ERROR,
              cause = Some ''root: Data must be a non-null object'',
              code = Some VALIDATION_ERROR, recoverable = False\<rparr>"
    using loadDatasets_validation_failures [of JNull ?cv] a by simp
  have g: "loadDatasets (Some (Inr (sample_collection [JNull])))
       = Inl \<lparr>emessage = ''No valid datasets found. Using fallback data.'',
              cause = Some ''All datasets failed validation'',
              code = Some VALIDATION_ERROR, recoverable = True\<rparr>"
    using loadDatasets_validation_failures [of "sample_collection [JNull]" no_findings "[JNull]"]
      b c d e by blast
  from a b c d e f g show ?thesis by simp
qed

subsection \<open>Duplicates in a collection\<close>















end
